theory Spec2Isabelle
  imports Complex_Main
begin

section \<open>Python values and dictionaries\<close>

text \<open>
  A profile record is a Python \<open>Dict[str, Any]\<close>. Its values are modelled by the
  datatype below. A float is modelled as a real number: the floats of the model are the
  finite ones, and their arithmetic is exact (no rounding, no NaN, no infinity). Text is
  a string of the code points U+0000 to U+00FF, one \<open>char\<close> for each code point. A
  \<open>datetime\<close> object, as the clock of the database gives it, is modelled by the number
  of seconds it counts. A dictionary is an association list read with \<open>map_of\<close>.
  An operation of the source that raises an exception returns \<open>None\<close> in the model;
  every exception met in the two scoring functions is a subclass of \<open>Exception\<close>,
  which is all that their handlers look at. The calls of the logger are not modelled.
\<close>

datatype pyval =
    PNone
  | PBool bool
  | PInt int
  | PFloat real
  | PStr string
  | PList "pyval list"
  | PDict "(string \<times> pyval) list"
  | PDateTime int

type_synonym pydict = "(string \<times> pyval) list"

text \<open>Truth value of an object, as \<open>if x:\<close>, \<open>not x\<close> and \<open>x or y\<close> test it.\<close>

fun truthy :: "pyval \<Rightarrow> bool" where
  "truthy PNone = False"
| "truthy (PBool b) = b"
| "truthy (PInt i) = (i \<noteq> 0)"
| "truthy (PFloat r) = (r \<noteq> 0)"
| "truthy (PStr s) = (s \<noteq> [])"
| "truthy (PList l) = (l \<noteq> [])"
| "truthy (PDict kv) = (kv \<noteq> [])"
| "truthy (PDateTime t) = True"

text \<open>The number an object stands for in arithmetic and comparisons (\<open>bool\<close> is a
  subclass of \<open>int\<close>); \<open>None\<close> for an object that is not a number.\<close>

fun num :: "pyval \<Rightarrow> real option" where
  "num (PBool b) = Some (if b then 1 else 0)"
| "num (PInt i) = Some (real_of_int i)"
| "num (PFloat r) = Some r"
| "num _ = None"

text \<open>\<open>d.get(k, dflt)\<close>; \<open>d.get(k)\<close> is \<open>get d k PNone\<close>.\<close>

definition get :: "pydict \<Rightarrow> string \<Rightarrow> pyval \<Rightarrow> pyval" where
  "get d k dflt = (case map_of d k of None \<Rightarrow> dflt | Some v \<Rightarrow> v)"

text \<open>\<open>x or 0\<close>.\<close>

definition or0 :: "pyval \<Rightarrow> pyval" where
  "or0 x = (if truthy x then x else PInt 0)"

text \<open>
  An arithmetic operation between a float and an int converts the int to a float, and
  the conversion raises OverflowError when the int does not round to a finite float: at
  \<open>2 ** 1024 - 2 ** 970\<close> and beyond, in absolute value. \<open>overflows k v\<close> says that
  the product of the int \<open>k\<close> and the object \<open>v\<close> is such an int. Operations between
  two ints are exact, comparisons and \<open>math.log10\<close> take an int of any size.
\<close>

definition float_limit :: int where
  "float_limit = 2 ^ 1024 - 2 ^ 970"

fun is_float :: "pyval \<Rightarrow> bool" where
  "is_float (PFloat r) = True"
| "is_float _ = False"

fun overflows :: "int \<Rightarrow> pyval \<Rightarrow> bool" where
  "overflows k (PInt i) = (float_limit \<le> \<bar>k * i\<bar>)"
| "overflows k _ = False"

section \<open>Strings\<close>

text \<open>\<open>str.lower()\<close>: among the code points U+0000 to U+00FF the capital letters are
  A to Z (65 to 90), U+00C0 to U+00D6 (192 to 214) and U+00D8 to U+00DE (216 to 222);
  the lower-case form of each is the code point 32 places further.\<close>

definition lower_char :: "char \<Rightarrow> char" where
  "lower_char c =
     (let n = of_char c :: nat
      in if (65 \<le> n \<and> n \<le> 90) \<or> (192 \<le> n \<and> n \<le> 214) \<or> (216 \<le> n \<and> n \<le> 222)
         then char_of (n + 32)
         else c)"

definition lower :: "string \<Rightarrow> string" where
  "lower s = map lower_char s"

text \<open>\<open>s.startswith(p)\<close> and the substring test \<open>sub in s\<close>.\<close>

fun startswith :: "string \<Rightarrow> string \<Rightarrow> bool" where
  "startswith s [] = True"
| "startswith [] (p # ps) = False"
| "startswith (c # cs) (p # ps) = (c = p \<and> startswith cs ps)"

fun contains :: "string \<Rightarrow> string \<Rightarrow> bool" where
  "contains [] sub = (sub = [])"
| "contains (c # cs) sub = (startswith (c # cs) sub \<or> contains cs sub)"

section \<open>Reputation analyzer\<close>

text \<open>\<open>REPUTATION_WEIGHTS\<close> of \<open>config/settings.py\<close>.\<close>

definition w_article_count :: real where "w_article_count = 0.3"
definition w_social_followers :: real where "w_social_followers = 0.2"
definition w_engagement_rate :: real where "w_engagement_rate = 0.2"
definition w_publication_quality :: real where "w_publication_quality = 0.2"
definition w_expertise_relevance :: real where "w_expertise_relevance = 0.1"

text \<open>\<open>_calculate_article_score\<close>. The comparison \<open>article_count <= 0\<close> raises
  TypeError on an object that is not a number.\<close>

definition calculate_article_score :: "pyval \<Rightarrow> real option" where
  "calculate_article_score article_count =
     (case num article_count of
        None \<Rightarrow> None
      | Some n \<Rightarrow>
          if n \<le> 0 then Some 0
          else Some (min (log 10 (n + 1) / log 10 (1000 + 1)) 1))"

text \<open>\<open>_calculate_social_score\<close>. On two strings or two lists \<open>*\<close> and \<open>+\<close>
  succeed and \<open>total_social <= 0\<close> raises TypeError; on every other pair with an object
  that is not a number \<open>*\<close> or \<open>+\<close> raises TypeError. The sum of a float and an int
  converts the int, \<open>linkedin_connections * 2\<close> or \<open>twitter_followers\<close>, and raises
  OverflowError when it is too large.\<close>

definition calculate_social_score :: "pyval \<Rightarrow> pyval \<Rightarrow> real option" where
  "calculate_social_score twitter_followers linkedin_connections =
     (case (num twitter_followers, num linkedin_connections) of
        (Some t, Some l) \<Rightarrow>
          if (is_float twitter_followers \<and> overflows 2 linkedin_connections) \<or>
             (is_float linkedin_connections \<and> overflows 1 twitter_followers)
          then None
          else
            (let total_social = t + l * 2 in
             if total_social \<le> 0 then Some 0
             else Some (min (log 10 (total_social + 1) / log 10 (100000 + 1)) 1))
      | _ \<Rightarrow> None)"

definition major_publications :: "string list" where
  "major_publications =
     [''new york times'', ''wall street journal'', ''washington post'', ''reuters'',
      ''bloomberg'', ''financial times'', ''the guardian'', ''bbc'', ''cnn'',
      ''techcrunch'', ''wired'', ''ars technica'', ''the verge'', ''forbes'']"

text \<open>\<open>_is_major_publication\<close>. A truthy object that is not a string has no
  \<open>lower\<close> method: AttributeError.\<close>

definition is_major_publication :: "pyval \<Rightarrow> bool option" where
  "is_major_publication publication =
     (if \<not> truthy publication then Some False
      else case publication of
             PStr s \<Rightarrow> Some (list_ex (\<lambda>pub. contains (lower s) pub) major_publications)
           | _ \<Rightarrow> None)"

text \<open>\<open>_calculate_engagement_score\<close>. The follower count is read with
  \<open>get('twitter_followers', 0)\<close>, so a key that is present with the value \<open>None\<close>
  reaches \<open>twitter_followers <= 0\<close> and raises TypeError.\<close>

definition calculate_engagement_score :: "pydict \<Rightarrow> real option" where
  "calculate_engagement_score journalist_data =
     (case num (get journalist_data ''twitter_followers'' (PInt 0)) of
        None \<Rightarrow> None
      | Some twitter_followers \<Rightarrow>
          if twitter_followers \<le> 0 then Some 0.5
          else
            (let base_engagement =
                   (if twitter_followers < 1000 then 0.8
                    else if twitter_followers < 10000 then 0.6
                    else if twitter_followers < 100000 then 0.4
                    else 0.2);
                 is_verified = get journalist_data ''is_verified'' (PBool False);
                 publication = get journalist_data ''current_publication'' (PStr []);
                 base1 = (if truthy is_verified then base_engagement + 0.1 else base_engagement)
             in case is_major_publication publication of
                  None \<Rightarrow> None
                | Some major \<Rightarrow> Some (min (if major then base1 + 0.1 else base1) 1)))"

definition tier1_publications :: "string list" where
  "tier1_publications =
     [''new york times'', ''wall street journal'', ''washington post'', ''reuters'',
      ''bloomberg'', ''financial times'', ''the guardian'', ''bbc'', ''cnn'',
      ''techcrunch'', ''wired'', ''ars technica'', ''the verge'']"

definition tier2_publications :: "string list" where
  "tier2_publications =
     [''forbes'', ''fortune'', ''business insider'', ''mashable'', ''engadget'',
      ''zdnet'', ''venturebeat'', ''recode'', ''axios'', ''fast company'',
      ''mit technology review'', ''ieee spectrum'']"

definition tier3_publications :: "string list" where
  "tier3_publications =
     [''techradar'', ''computerworld'', ''infoworld'', ''network world'',
      ''security week'', ''ai news'', ''machine learning mastery'']"

definition academic_keywords :: "string list" where
  "academic_keywords = [''university'', ''institute'', ''research'', ''academic'']"

text \<open>\<open>_calculate_publication_quality_score\<close>.\<close>

definition calculate_publication_quality_score :: "pyval \<Rightarrow> real option" where
  "calculate_publication_quality_score publication =
     (if \<not> truthy publication then Some 0.3
      else case publication of
             PStr s \<Rightarrow>
               (let publication_lower = lower s in
                Some (if list_ex (contains publication_lower) tier1_publications then 1.0
                      else if list_ex (contains publication_lower) tier2_publications then 0.8
                      else if list_ex (contains publication_lower) tier3_publications then 0.6
                      else if list_ex (contains publication_lower) academic_keywords then 0.7
                      else 0.4))
           | _ \<Rightarrow> None)"

text \<open>\<open>_calculate_academic_score\<close>. The test \<open>== 0\<close> never raises; \<open>max(x, 1)\<close>
  and \<open>h_index / 50.0\<close> raise TypeError on an object that is not a number, and
  \<open>h_index / 50.0\<close> raises OverflowError on an int that is too large. The argument
  \<open>source_platform\<close> is not used by the source.\<close>

definition eq0 :: "pyval \<Rightarrow> bool" where
  "eq0 v = (num v = Some 0)"

definition calculate_academic_score :: "pyval \<Rightarrow> pyval \<Rightarrow> pyval \<Rightarrow> pyval \<Rightarrow> real option" where
  "calculate_academic_score citation_count h_index publication_count source_platform =
     (if eq0 citation_count \<and> eq0 h_index \<and> eq0 publication_count then Some 0
      else case (num citation_count, num h_index, num publication_count) of
             (Some c, Some h, Some p) \<Rightarrow>
               if overflows 1 h_index then None
               else
                 (let citation_score = min (log 10 (max c 1) / log 10 10000) 1;
                      h_index_score = min (h / 50) 1;
                      publication_score = min (log 10 (max p 1) / log 10 500) 1;
                      academic_score =
                        citation_score * 0.5 + h_index_score * 0.3 + publication_score * 0.2
                  in Some (min academic_score 1))
           | _ \<Rightarrow> None)"

definition high_value_specializations :: "string list" where
  "high_value_specializations =
     [''artificial intelligence'', ''machine learning'', ''programming'',
      ''data science'', ''cybersecurity'', ''robotics'']"

text \<open>The objects that \<open>for spec in specializations\<close> visits: the elements of a list,
  the one-character strings of a string, the keys of a dict; TypeError on anything else.\<close>

fun iterate :: "pyval \<Rightarrow> pyval list option" where
  "iterate (PList l) = Some l"
| "iterate (PStr s) = Some (map (\<lambda>c. PStr [c]) s)"
| "iterate (PDict kv) = Some (map (\<lambda>(k, v). PStr k) kv)"
| "iterate _ = None"

text \<open>The loop over the specializations: \<open>spec.lower()\<close> raises AttributeError on an
  element that is not a string; each element that is one of the high-value
  specializations adds 0.1.\<close>

fun specialization_bonus :: "pyval list \<Rightarrow> real option" where
  "specialization_bonus [] = Some 0"
| "specialization_bonus (PStr s # rest) =
     (case specialization_bonus rest of
        None \<Rightarrow> None
      | Some b \<Rightarrow>
          Some ((if lower s \<in> set (map lower high_value_specializations) then 0.1 else 0) + b))"
| "specialization_bonus (_ # rest) = None"

text \<open>\<open>_calculate_expertise_score\<close>. \<open>json.loads\<close> is a parameter: \<open>loads s\<close> is the
  decoded object, or \<open>None\<close> when decoding raises (the source then takes \<open>[s]\<close>). The
  capped bonus, a float, is added to the relevance score in every run that reaches the
  end: TypeError when the relevance score is not a number, OverflowError when it is an
  int that is too large.\<close>

definition calculate_expertise_score ::
  "(string \<Rightarrow> pyval option) \<Rightarrow> pyval \<Rightarrow> pydict \<Rightarrow> real option" where
  "calculate_expertise_score loads ai_relevance_score journalist_data =
     (case num ai_relevance_score of
        None \<Rightarrow> None
      | Some a \<Rightarrow>
          if overflows 1 ai_relevance_score then None
          else
          (let programming_expertise = get journalist_data ''programming_expertise'' (PBool False);
               expertise_score = (if truthy programming_expertise then a + 0.2 else a);
               specializations0 = get journalist_data ''specializations'' (PList []);
               specializations =
                 (case specializations0 of
                    PStr s \<Rightarrow> (case loads s of Some j \<Rightarrow> j | None \<Rightarrow> PList [PStr s])
                  | _ \<Rightarrow> specializations0)
           in case iterate specializations of
                None \<Rightarrow> None
              | Some specs \<Rightarrow>
                  (case specialization_bonus specs of
                     None \<Rightarrow> None
                   | Some bonus \<Rightarrow> Some (min (expertise_score + min bonus 0.3) 1))))"

text \<open>The body of the \<open>try\<close> block of \<open>calculate_reputation_score\<close>: \<open>None\<close> when an
  exception is raised inside it. All six component scores are computed before the
  platform is looked at.\<close>

definition reputation_try :: "(string \<Rightarrow> pyval option) \<Rightarrow> pydict \<Rightarrow> real option" where
  "reputation_try loads journalist_data =
     (let article_count = or0 (get journalist_data ''article_count'' PNone);
          twitter_followers = or0 (get journalist_data ''twitter_followers'' PNone);
          linkedin_connections = or0 (get journalist_data ''linkedin_connections'' PNone);
          current_publication = get journalist_data ''current_publication'' (PStr []);
          ai_relevance_score = or0 (get journalist_data ''ai_relevance_score'' PNone);
          is_verified = get journalist_data ''is_verified'' (PBool False);
          citation_count = or0 (get journalist_data ''citation_count'' PNone);
          h_index = or0 (get journalist_data ''h_index'' PNone);
          publication_count = or0 (get journalist_data ''publication_count'' PNone);
          source_platform = get journalist_data ''source_platform'' (PStr [])
      in case calculate_article_score article_count of
           None \<Rightarrow> None
         | Some article_score \<Rightarrow>
        (case calculate_social_score twitter_followers linkedin_connections of
           None \<Rightarrow> None
         | Some social_score \<Rightarrow>
        (case calculate_engagement_score journalist_data of
           None \<Rightarrow> None
         | Some engagement_score \<Rightarrow>
        (case calculate_publication_quality_score current_publication of
           None \<Rightarrow> None
         | Some publication_score \<Rightarrow>
        (case calculate_expertise_score loads ai_relevance_score journalist_data of
           None \<Rightarrow> None
         | Some expertise_score \<Rightarrow>
        (case calculate_academic_score citation_count h_index publication_count source_platform of
           None \<Rightarrow> None
         | Some academic_score \<Rightarrow>
            (let verification_bonus = (if truthy is_verified then 0.1 else 0.0);
                 reputation_score =
                   (if source_platform \<in> {PStr ''google_scholar'', PStr ''researchgate''}
                    then academic_score * 0.6 +
                         publication_score * w_publication_quality +
                         expertise_score * w_expertise_relevance +
                         verification_bonus
                    else article_score * w_article_count +
                         social_score * w_social_followers +
                         engagement_score * w_engagement_rate +
                         publication_score * w_publication_quality +
                         expertise_score * w_expertise_relevance +
                         verification_bonus)
             in Some (min (max reputation_score 0.0) 1.0))))))))"

text \<open>\<open>calculate_reputation_score\<close>: the handler \<open>except Exception\<close> returns 0.0.\<close>

definition calculate_reputation_score :: "(string \<Rightarrow> pyval option) \<Rightarrow> pydict \<Rightarrow> real" where
  "calculate_reputation_score loads journalist_data =
     (case reputation_try loads journalist_data of None \<Rightarrow> 0.0 | Some final_score \<Rightarrow> final_score)"

section \<open>Text operations of the relevance scorer\<close>

text \<open>Whitespace as \<open>str.split()\<close>, \<open>str.strip()\<close> and the regular expression \<open>\s\<close>
  see it, among the code points U+0000 to U+00FF: the controls 9 to 13 and 28 to 32
  (the last is the space), U+0085 and U+00A0.\<close>

definition is_space :: "char \<Rightarrow> bool" where
  "is_space c =
     (let n = of_char c :: nat
      in (9 \<le> n \<and> n \<le> 13) \<or> (28 \<le> n \<and> n \<le> 32) \<or> n = 133 \<or> n = 160)"

text \<open>Word characters as \<open>\w\<close> and \<open>\b\<close> see them, alphanumeric or the underscore:
  the digits, the letters A to Z and a to z, the underscore (95), and beyond U+007F the
  letters U+00C0 to U+00FF without the two signs U+00D7 and U+00F7, and nine more
  alphanumeric code points.\<close>

definition is_word :: "char \<Rightarrow> bool" where
  "is_word c =
     (let n = of_char c :: nat
      in (48 \<le> n \<and> n \<le> 57) \<or> (65 \<le> n \<and> n \<le> 90) \<or> n = 95 \<or> (97 \<le> n \<and> n \<le> 122) \<or>
         n \<in> set [170, 178, 179, 181, 185, 186, 188, 189, 190] \<or>
         (192 \<le> n \<and> n \<le> 214) \<or> (216 \<le> n \<and> n \<le> 246) \<or> 248 \<le> n)"

text \<open>\<open>text.split()\<close>: the maximal runs of characters that are not whitespace.\<close>

function split :: "string \<Rightarrow> string list" where
  "split [] = []"
| "split (c # cs) =
     (if is_space c then split cs
      else takeWhile (\<lambda>x. \<not> is_space x) (c # cs) # split (dropWhile (\<lambda>x. \<not> is_space x) cs))"
  by pat_completeness auto
termination
  by (relation "measure length") (auto simp: less_Suc_eq_le length_dropWhile_le)

definition strip :: "string \<Rightarrow> string" where
  "strip s = rev (dropWhile is_space (rev (dropWhile is_space s)))"

text \<open>\<open>sep.join(parts)\<close> on strings.\<close>

fun join :: "string \<Rightarrow> string list \<Rightarrow> string" where
  "join sep [] = []"
| "join sep [x] = x"
| "join sep (x # y # ys) = x @ sep @ join sep (y # ys)"

text \<open>\<open>' '.join(items)\<close> on objects: TypeError unless every item is a string.\<close>

fun strings_of :: "pyval list \<Rightarrow> string list option" where
  "strings_of [] = Some []"
| "strings_of (PStr s # rest) = (case strings_of rest of None \<Rightarrow> None | Some ss \<Rightarrow> Some (s # ss))"
| "strings_of (_ # rest) = None"

definition py_join :: "pyval list \<Rightarrow> string option" where
  "py_join items = (case strings_of items of None \<Rightarrow> None | Some ss \<Rightarrow> Some (join '' '' ss))"

subsection \<open>The regular expressions of the source\<close>

text \<open>
  The patterns of the source use literal characters, \<open>\b\<close>, \<open>\s+\<close>, \<open>.*\<close> and \<open>c?\<close>,
  always with \<open>re.IGNORECASE\<close>. A pattern is a list of such atoms. \<open>rx_here p prev s\<close>
  matches \<open>p\<close> at the start of \<open>s\<close>, where \<open>prev\<close> is the character before \<open>s\<close> in the
  whole text; it returns the rest of the text after the match with the last character
  before it, trying the longer alternative first as the backtracking matcher does.
\<close>

datatype atom = Ch char | WB | Sp1 | Any0 | Opt char

definition word_opt :: "char option \<Rightarrow> bool" where
  "word_opt c = (case c of None \<Rightarrow> False | Some x \<Rightarrow> is_word x)"

fun first_char :: "string \<Rightarrow> char option" where
  "first_char [] = None"
| "first_char (c # cs) = Some c"

fun rx_here :: "atom list \<Rightarrow> char option \<Rightarrow> string \<Rightarrow> (char option \<times> string) option" where
  "rx_here [] prev s = Some (prev, s)"
| "rx_here (Ch c # p) prev [] = None"
| "rx_here (Ch c # p) prev (x # xs) =
     (if lower_char x = lower_char c then rx_here p (Some x) xs else None)"
| "rx_here (WB # p) prev s =
     (if word_opt prev \<noteq> word_opt (first_char s) then rx_here p prev s else None)"
| "rx_here (Sp1 # p) prev [] = None"
| "rx_here (Sp1 # p) prev (x # xs) =
     (if is_space x
      then (case rx_here (Sp1 # p) (Some x) xs of
              Some r \<Rightarrow> Some r
            | None \<Rightarrow> rx_here p (Some x) xs)
      else None)"
| "rx_here (Any0 # p) prev [] = rx_here p prev []"
| "rx_here (Any0 # p) prev (x # xs) =
     (if x \<noteq> CHR 0x0A
      then (case rx_here (Any0 # p) (Some x) xs of
              Some r \<Rightarrow> Some r
            | None \<Rightarrow> rx_here p prev (x # xs))
      else rx_here p prev (x # xs))"
| "rx_here (Opt c # p) prev [] = rx_here p prev []"
| "rx_here (Opt c # p) prev (x # xs) =
     (case (if lower_char x = lower_char c then rx_here p (Some x) xs else None) of
        Some r \<Rightarrow> Some r
      | None \<Rightarrow> rx_here p prev (x # xs))"

text \<open>\<open>re.search(pattern, text)\<close> as a truth value: a match at some position.\<close>

fun rx_search :: "atom list \<Rightarrow> char option \<Rightarrow> string \<Rightarrow> bool" where
  "rx_search p prev [] = (rx_here p prev [] \<noteq> None)"
| "rx_search p prev (x # xs) = (rx_here p prev (x # xs) \<noteq> None \<or> rx_search p (Some x) xs)"

text \<open>\<open>len(re.findall(pattern, text))\<close>: the matches found from left to right, each
  search starting where the last match ended. The patterns the source counts never match
  the empty string; after an empty match the scan moves on by one character.\<close>

function rx_count :: "atom list \<Rightarrow> char option \<Rightarrow> string \<Rightarrow> nat" where
  "rx_count p prev s =
     (case rx_here p prev s of
        Some (prev', rest) \<Rightarrow>
          if length rest < length s then 1 + rx_count p prev' rest
          else (case s of [] \<Rightarrow> 1 | x # xs \<Rightarrow> 1 + rx_count p (Some x) xs)
      | None \<Rightarrow> (case s of [] \<Rightarrow> 0 | x # xs \<Rightarrow> rx_count p (Some x) xs))"
  by pat_completeness auto
termination
  by (relation "measure (\<lambda>(p, prev, s). length s)") auto

declare rx_count.simps [simp del]

text \<open>\<open>r'\b' + re.escape(keyword) + r'\b'\<close>.\<close>

definition word_pattern :: "string \<Rightarrow> atom list" where
  "word_pattern keyword = WB # map Ch keyword @ [WB]"

section \<open>Relevance scorer\<close>

text \<open>The four weight tables built by the constructor, in the order of the source.\<close>

definition ai_keywords :: "(string \<times> real) list" where
  "ai_keywords =
     [(''artificial intelligence'', 1.0), (''machine learning'', 1.0), (''deep learning'', 0.95),
      (''neural networks'', 0.9), (''natural language processing'', 0.9),
      (''computer vision'', 0.9), (''reinforcement learning'', 0.85),
      (''automation'', 0.7), (''robotics'', 0.75), (''chatbot'', 0.6), (''algorithm'', 0.65),
      (''data science'', 0.7), (''big data'', 0.6), (''predictive analytics'', 0.65),
      (''programming'', 0.8), (''software development'', 0.75), (''coding'', 0.7),
      (''software engineering'', 0.75), (''web development'', 0.6),
      (''mobile development'', 0.6), (''devops'', 0.65),
      (''tech startup'', 0.6), (''silicon valley'', 0.5), (''innovation'', 0.4),
      (''digital transformation'', 0.6), (''cloud computing'', 0.65), (''cybersecurity'', 0.7),
      (''blockchain'', 0.6),
      (''technology'', 0.3), (''tech'', 0.3), (''digital'', 0.25), (''internet'', 0.2),
      (''software'', 0.4)]"

definition programming_languages :: "(string \<times> real) list" where
  "programming_languages =
     [(''python'', 0.9), (''r'', 0.8), (''julia'', 0.8), (''tensorflow'', 0.95),
      (''pytorch'', 0.95), (''scikit-learn'', 0.9), (''javascript'', 0.6), (''java'', 0.6),
      (''c++'', 0.7), (''scala'', 0.7), (''go'', 0.6), (''rust'', 0.6), (''swift'', 0.5),
      (''kotlin'', 0.5), (''sql'', 0.5), (''matlab'', 0.7), (''hadoop'', 0.7), (''spark'', 0.8)]"

definition tech_companies :: "(string \<times> real) list" where
  "tech_companies =
     [(''openai'', 1.0), (''deepmind'', 1.0), (''anthropic'', 1.0), (''nvidia'', 0.9),
      (''google'', 0.8), (''microsoft'', 0.8), (''amazon'', 0.7), (''meta'', 0.7),
      (''apple'', 0.7), (''tesla'', 0.8),
      (''uber'', 0.6), (''airbnb'', 0.5), (''spotify'', 0.5), (''netflix'', 0.6),
      (''salesforce'', 0.6), (''oracle'', 0.5), (''ibm'', 0.7), (''intel'', 0.7), (''amd'', 0.6)]"

definition ai_concepts :: "(string \<times> real) list" where
  "ai_concepts =
     [(''supervised learning'', 0.9), (''unsupervised learning'', 0.9),
      (''semi-supervised learning'', 0.85), (''transfer learning'', 0.85),
      (''generative ai'', 0.95), (''large language model'', 0.95), (''transformer'', 0.9),
      (''gpt'', 0.9), (''bert'', 0.85), (''convolutional neural network'', 0.9),
      (''recurrent neural network'', 0.85), (''gradient descent'', 0.8),
      (''backpropagation'', 0.8), (''feature engineering'', 0.75), (''model training'', 0.8),
      (''hyperparameter tuning'', 0.75), (''overfitting'', 0.7), (''cross-validation'', 0.7),
      (''ensemble methods'', 0.75), (''random forest'', 0.7), (''support vector machine'', 0.7),
      (''k-means clustering'', 0.65), (''decision tree'', 0.6), (''linear regression'', 0.6),
      (''logistic regression'', 0.6)]"

text \<open>\<open>_calculate_keyword_score\<close>: \<open>math.log\<close> is the natural logarithm.\<close>

definition keyword_contribution :: "string \<Rightarrow> string \<times> real \<Rightarrow> real" where
  "keyword_contribution text kw =
     (let count = rx_count (word_pattern (fst kw)) None text in
      if count > 0 then snd kw * (1 - exp (- real count)) else 0)"

definition calculate_keyword_score :: "string \<Rightarrow> real" where
  "calculate_keyword_score text =
     (let word_count = length (split text) in
      if word_count = 0 then 0.0
      else
        (let score = sum_list (map (keyword_contribution text) ai_keywords);
             normalized_score = score / max (ln (real (word_count + 1))) 1
         in min normalized_score 1.0))"

text \<open>The sum of the weights of the table entries found in the text as whole words, shared
  by \<open>_calculate_programming_score\<close>, \<open>_calculate_company_score\<close> and
  \<open>_calculate_concept_score\<close>.\<close>

definition matched_weight :: "string \<Rightarrow> (string \<times> real) list \<Rightarrow> real" where
  "matched_weight text table =
     sum_list (map (\<lambda>e. if rx_search (word_pattern (fst e)) None text then snd e else 0) table)"

definition calculate_programming_score :: "string \<Rightarrow> real" where
  "calculate_programming_score text = min (matched_weight text programming_languages / 3.0) 1.0"

definition calculate_company_score :: "string \<Rightarrow> real" where
  "calculate_company_score text = min (matched_weight text tech_companies / 2.0) 1.0"

definition calculate_concept_score :: "string \<Rightarrow> real" where
  "calculate_concept_score text = min (matched_weight text ai_concepts / 5.0) 1.0"

text \<open>\<open>_is_explicit_ai_journalist\<close> and its eight patterns.\<close>

definition explicit_patterns :: "atom list list" where
  "explicit_patterns =
     [map Ch ''ai'' @ [Sp1] @ map Ch ''journalist'',
      map Ch ''artificial'' @ [Sp1] @ map Ch ''intelligence'' @ [Sp1] @ map Ch ''reporter'',
      map Ch ''machine'' @ [Sp1] @ map Ch ''learning'' @ [Sp1] @ map Ch ''correspondent'',
      map Ch ''tech'' @ [Sp1] @ map Ch ''journalist'' @ [Any0] @ map Ch ''ai'',
      map Ch ''ai'' @ [Any0] @ map Ch ''journalist'',
      map Ch ''cover'' @ [Opt CHR ''s'', Sp1] @ map Ch ''artificial'' @ [Sp1] @ map Ch ''intelligence'',
      map Ch ''specialize'' @ [Opt CHR ''s'', Sp1] @ map Ch ''in'' @ [Sp1] @ map Ch ''ai'',
      map Ch ''focuse'' @ [Opt CHR ''s'', Sp1] @ map Ch ''on'' @ [Sp1] @ map Ch ''machine'' @ [Sp1]
        @ map Ch ''learning'']"

definition is_explicit_ai_journalist :: "string \<Rightarrow> bool" where
  "is_explicit_ai_journalist text = list_ex (\<lambda>pattern. rx_search pattern None text) explicit_patterns"

text \<open>The third text source: the joined list when \<open>specializations\<close> is a list, else the
  value of the key itself (the empty string when the key is absent).\<close>

definition specializations_text :: "pydict \<Rightarrow> pyval option" where
  "specializations_text journalist_data =
     (case get journalist_data ''specializations'' PNone of
        PList l \<Rightarrow> (case py_join l of None \<Rightarrow> None | Some t \<Rightarrow> Some (PStr t))
      | _ \<Rightarrow> Some (get journalist_data ''specializations'' (PStr [])))"

text \<open>The score of a combined text that is not blank.\<close>

definition text_score :: "string \<Rightarrow> real" where
  "text_score combined_text =
     (let keyword_score = calculate_keyword_score combined_text;
          programming_score = calculate_programming_score combined_text;
          company_score = calculate_company_score combined_text;
          concept_score = calculate_concept_score combined_text;
          final_score =
            keyword_score * 0.4 + programming_score * 0.25 + company_score * 0.2 + concept_score * 0.15;
          final_score1 =
            (if is_explicit_ai_journalist combined_text then final_score + 0.2 else final_score)
      in min (max final_score1 0.0) 1.0)"

text \<open>The body of the \<open>try\<close> block of \<open>calculate_ai_relevance_score\<close>: \<open>None\<close> when
  one of the two \<open>join\<close> calls raises TypeError.\<close>

definition relevance_try :: "pydict \<Rightarrow> real option" where
  "relevance_try journalist_data =
     (case specializations_text journalist_data of
        None \<Rightarrow> None
      | Some spec_text \<Rightarrow>
          (let text_sources =
                 [get journalist_data ''bio'' (PStr []),
                  get journalist_data ''job_title'' (PStr []),
                  spec_text,
                  get journalist_data ''name'' (PStr [])]
           in case py_join (filter truthy text_sources) of
                None \<Rightarrow> None
              | Some joined \<Rightarrow>
                  (let combined_text = lower joined in
                   if strip combined_text = [] then Some 0.0
                   else Some (text_score combined_text))))"

text \<open>\<open>calculate_ai_relevance_score\<close>: the handler \<open>except Exception\<close> returns 0.0.\<close>

definition calculate_ai_relevance_score :: "pydict \<Rightarrow> real" where
  "calculate_ai_relevance_score journalist_data =
     (case relevance_try journalist_data of None \<Rightarrow> 0.0 | Some final_score \<Rightarrow> final_score)"

section \<open>Identity merge\<close>

text \<open>
  The table \<open>journalists\<close> of \<open>models.py\<close>. A stored record gives a value to every
  column; \<open>PNone\<close> is NULL. The columns that a profile record fills are listed by their
  types. The three others are managed by the database: \<open>last_updated\<close> and
  \<open>created_at\<close> are set from its clock and are fields of a stored record; \<open>id\<close>, the
  autoincremented key, is represented by the position of the record in the store. The
  store is the list of the rows in insertion order, which is the order in which a query
  without \<open>ORDER BY\<close> visits them.
\<close>

definition string_columns :: "string list" where
  "string_columns =
     [''name'', ''email'', ''bio'', ''current_publication'', ''job_title'', ''specializations'',
      ''twitter_handle'', ''linkedin_url'', ''website_url'', ''country'', ''city'', ''timezone'',
      ''source_platform'']"

definition integer_columns :: "string list" where
  "integer_columns =
     [''article_count'', ''twitter_followers'', ''linkedin_connections'', ''citation_count'',
      ''h_index'', ''publication_count'']"

definition float_columns :: "string list" where
  "float_columns = [''reputation_score'', ''ai_relevance_score'']"

definition boolean_columns :: "string list" where
  "boolean_columns = [''programming_expertise'', ''is_verified'']"

definition columns :: "string list" where
  "columns = string_columns @ integer_columns @ float_columns @ boolean_columns"

definition system_columns :: "string list" where
  "system_columns = [''id'', ''last_updated'', ''created_at'']"

type_synonym journalist = "string \<Rightarrow> pyval"

type_synonym store = "journalist list"

text \<open>The \<open>default=\<close> of a column: 0.0 for the two scores, 0 for the counts, False for the
  two flags, none for the text columns.\<close>

definition column_default :: "string \<Rightarrow> pyval" where
  "column_default k =
     (if k \<in> set float_columns then PFloat 0
      else if k \<in> set integer_columns then PInt 0
      else if k \<in> set boolean_columns then PBool False
      else PNone)"

text \<open>
  The records considered: a dictionary (no key twice) without the database-managed keys,
  in which the value of a column key is \<open>None\<close> or has the type of the column (a list of
  strings is allowed for \<open>specializations\<close>). Keys that are not columns are allowed.
  What \<open>add_journalist\<close> does with a value of another type in a column, or with one
  of the keys \<open>id\<close>, \<open>last_updated\<close> and \<open>created_at\<close>, is outside the model.
\<close>

fun is_str :: "pyval \<Rightarrow> bool" where
  "is_str (PStr s) = True"
| "is_str _ = False"

fun has_type :: "string \<Rightarrow> pyval \<Rightarrow> bool" where
  "has_type k PNone = True"
| "has_type k (PStr s) = (k \<in> set string_columns)"
| "has_type k (PInt i) = (k \<in> set integer_columns)"
| "has_type k (PFloat r) = (k \<in> set float_columns)"
| "has_type k (PBool b) = (k \<in> set boolean_columns)"
| "has_type k (PList l) = (k = ''specializations'' \<and> list_all is_str l)"
| "has_type k (PDict kv) = False"
| "has_type k (PDateTime t) = False"

definition well_typed :: "pydict \<Rightarrow> bool" where
  "well_typed d =
     (distinct (map fst d) \<and>
      list_all (\<lambda>(k, v). k \<notin> set system_columns \<and> (k \<notin> set columns \<or> has_type k v)) d)"

text \<open>A stored record whose values have the types of their columns.\<close>

definition row_typed :: "journalist \<Rightarrow> bool" where
  "row_typed r = list_all (\<lambda>k. has_type k (r k)) columns"

text \<open>An INTEGER of SQLite has 64 bits: binding an int outside this range as a
  parameter of a statement raises OverflowError. \<open>fits_integer v\<close> says that the object
  \<open>v\<close> can be bound, \<open>storable d\<close> that every value of the record \<open>d\<close> can.\<close>

fun fits_integer :: "pyval \<Rightarrow> bool" where
  "fits_integer (PInt i) = (- (2 ^ 63) \<le> i \<and> i < 2 ^ 63)"
| "fits_integer _ = True"

definition storable :: "pydict \<Rightarrow> bool" where
  "storable d = list_all (\<lambda>(k, v). fits_integer v) d"

text \<open>\<open>query.filter(...).first()\<close>: the position of the first row that satisfies the
  condition.\<close>

fun find_first :: "('a \<Rightarrow> bool) \<Rightarrow> 'a list \<Rightarrow> nat option" where
  "find_first P [] = None"
| "find_first P (x # xs) = (if P x then Some 0 else map_option Suc (find_first P xs))"

text \<open>The lookup of \<open>add_journalist\<close>: by email when the incoming email is truthy, then by
  name when nothing was found and the incoming name is truthy.\<close>

definition find_existing :: "store \<Rightarrow> pydict \<Rightarrow> nat option" where
  "find_existing s journalist_data =
     (let email = get journalist_data ''email'' PNone;
          name = get journalist_data ''name'' PNone;
          existing = (if truthy email then find_first (\<lambda>r. r ''email'' = email) s else None)
      in if existing = None \<and> truthy name then find_first (\<lambda>r. r ''name'' = name) s
         else existing)"

text \<open>\<open>journalist_data[k] = v\<close> on a dictionary.\<close>

fun dict_set :: "string \<Rightarrow> pyval \<Rightarrow> pydict \<Rightarrow> pydict" where
  "dict_set k v [] = [(k, v)]"
| "dict_set k v ((k', x) # rest) =
     (if k' = k then (k, v) # rest else (k', x) # dict_set k v rest)"

text \<open>The list of specializations is replaced, in the caller's dictionary, by its JSON
  text. \<open>json.dumps\<close> is a parameter.\<close>

definition convert_specializations :: "(pyval list \<Rightarrow> string) \<Rightarrow> pydict \<Rightarrow> pydict" where
  "convert_specializations dumps journalist_data =
     (case map_of journalist_data ''specializations'' of
        Some (PList l) \<Rightarrow> dict_set ''specializations'' (PStr (dumps l)) journalist_data
      | _ \<Rightarrow> journalist_data)"

text \<open>\<open>isinstance(current_value, str) and current_value.strip() == ""\<close>.\<close>

fun blank :: "pyval \<Rightarrow> bool" where
  "blank (PStr s) = (strip s = [])"
| "blank _ = False"

definition score_columns :: "string list" where
  "score_columns = [''reputation_score'', ''ai_relevance_score'']"

datatype error = TypeError | OverflowError

text \<open>\<open>value > current_value\<close> on a score key. The incoming score of a well-typed record
  is a float, and comparing a float with an object that is not a number raises TypeError.\<close>

definition py_gt :: "pyval \<Rightarrow> pyval \<Rightarrow> bool option" where
  "py_gt a b = (case (num a, num b) of (Some x, Some y) \<Rightarrow> Some (x > y) | _ \<Rightarrow> None)"

text \<open>
  The update loop over \<open>journalist_data.items()\<close>. \<open>hasattr(existing, key)\<close> holds for the
  columns. It also holds for the other attributes of the mapped class (\<open>metadata\<close>,
  \<open>registry\<close>, the methods): none of them is a score, and an assignment to one of them
  is not written to the table, so that the loop changes nothing of the stored record for
  such a key, as for a key without attribute.
\<close>

fun merge_items :: "journalist \<Rightarrow> pydict \<Rightarrow> error + journalist" where
  "merge_items existing [] = Inr existing"
| "merge_items existing ((key, value) # rest) =
     (if key \<in> set columns \<and> value \<noteq> PNone then
        (let current_value = existing key in
         if current_value = PNone \<or> blank current_value
         then merge_items (existing(key := value)) rest
         else if key \<in> set score_columns
         then (case py_gt value current_value of
                 None \<Rightarrow> Inl TypeError
               | Some True \<Rightarrow> merge_items (existing(key := value)) rest
               | Some False \<Rightarrow> merge_items existing rest)
         else merge_items existing rest)
      else merge_items existing rest)"

text \<open>\<open>Journalist(**journalist_data)\<close> after the INSERT at the time \<open>now\<close> of the
  database clock: the given values, the column default where the key is absent or
  \<open>None\<close>, and the time of the INSERT in \<open>last_updated\<close> and \<open>created_at\<close>
  (\<open>default=func.now()\<close>).\<close>

definition new_journalist :: "int \<Rightarrow> pydict \<Rightarrow> journalist" where
  "new_journalist now journalist_data =
     (\<lambda>k. if k \<in> set columns
          then (case get journalist_data k PNone of PNone \<Rightarrow> column_default k | v \<Rightarrow> v)
          else if k = ''last_updated'' \<or> k = ''created_at'' then PDateTime now
          else PNone)"

text \<open>Another row than row \<open>i\<close> holds the email \<open>e\<close>: the UNIQUE constraint rejects an
  UPDATE of row \<open>i\<close> to it.\<close>

definition email_taken :: "store \<Rightarrow> nat \<Rightarrow> pyval \<Rightarrow> bool" where
  "email_taken s i e = list_ex (\<lambda>j. j \<noteq> i \<and> (s ! j) ''email'' = e) [0..<length s]"

text \<open>
  \<open>add_journalist\<close>. The result is the store after the call, the caller's dictionary
  after the call, and either the exception that leaves the function or the returned
  record (\<open>None\<close> after a rollback). The parameters besides the store and the record:
  \<open>dumps\<close> is \<open>json.dumps\<close>; \<open>other_attributes\<close> lists the names, besides the columns,
  that the constructor of the mapped class accepts as keywords (attributes of the class
  such as \<open>metadata\<close>; it assigns them to the object, and they are not written to the
  table); \<open>now\<close> is the time of the database clock during the call.

  When a record is found, the loop updates the object, and the commit writes the columns
  whose value has changed in one UPDATE, which also sets \<open>last_updated\<close>
  (\<open>onupdate=func.now()\<close>); when no column has changed no UPDATE is made. When no record
  is found, the constructor raises TypeError on a keyword that it does not accept, and
  the commit writes the new object in one INSERT.

  A TypeError or an OverflowError leaves the function, and the store is as it was:
  nothing has been committed. OverflowError is raised when a value of the statement is an
  int that SQLite cannot take, before the statement is run. An SQLAlchemyError is caught
  and followed by a rollback: the UNIQUE constraint on \<open>email\<close> and the NOT NULL
  constraint on \<open>name\<close> are the two that a statement can violate.
\<close>

definition add_journalist ::
  "(pyval list \<Rightarrow> string) \<Rightarrow> string list \<Rightarrow> int \<Rightarrow> store \<Rightarrow> pydict
     \<Rightarrow> store \<times> pydict \<times> (error + journalist option)" where
  "add_journalist dumps other_attributes now s journalist_data =
     (let data = convert_specializations dumps journalist_data in
      case find_existing s journalist_data of
        Some i \<Rightarrow>
          (case merge_items (s ! i) data of
             Inl e \<Rightarrow> (s, data, Inl e)
           | Inr existing \<Rightarrow>
               if list_all (\<lambda>k. existing k = (s ! i) k) columns
               then (s, data, Inr (Some existing))
               else if list_ex (\<lambda>k. existing k \<noteq> (s ! i) k \<and> \<not> fits_integer (existing k)) columns
               then (s, data, Inl OverflowError)
               else if existing ''email'' \<noteq> (s ! i) ''email'' \<and> email_taken s i (existing ''email'')
               then (s, data, Inr None)
               else
                 (let updated = existing(''last_updated'' := PDateTime now)
                  in (s[i := updated], data, Inr (Some updated))))
      | None \<Rightarrow>
          if list_ex (\<lambda>(key, value). key \<notin> set columns \<and> key \<notin> set system_columns \<and>
                                     key \<notin> set other_attributes) data
          then (s, data, Inl TypeError)
          else
            (let journalist = new_journalist now data in
             if list_ex (\<lambda>k. \<not> fits_integer (journalist k)) columns
             then (s, data, Inl OverflowError)
             else if journalist ''name'' = PNone then (s, data, Inr None)
             else if journalist ''email'' \<noteq> PNone \<and>
                     list_ex (\<lambda>r. r ''email'' = journalist ''email'') s
             then (s, data, Inr None)
             else (s @ [journalist], data, Inr (Some journalist))))"

subsection \<open>Two notions used in the proofs\<close>


text \<open>What the update loop does to the column \<open>k\<close> when the incoming value is \<open>v\<close>.\<close>

definition merged_value :: "string \<Rightarrow> pyval \<Rightarrow> pyval \<Rightarrow> pyval" where
  "merged_value k cur v =
     (if k \<in> set columns \<and> v \<noteq> PNone then
        (if cur = PNone \<or> blank cur then v
         else if k \<in> set score_columns \<and> py_gt v cur = Some True then v
         else cur)
      else cur)"

section \<open>Example records\<close>

text \<open>The profile of the concrete scenario, and the text the relevance scorer builds
  from it.\<close>

definition smith :: pydict where
  "smith =
     [(''name'', PStr ''A. Smith''),
      (''bio'', PStr ''Senior AI reporter covering machine learning''),
      (''twitter_followers'', PInt 15000),
      (''is_verified'', PBool True),
      (''current_publication'', PStr ''TechCrunch'')]"

definition smith_text :: string where
  "smith_text = ''senior ai reporter covering machine learning a. smith''"

text \<open>Stored records and incoming records for the merge. The stored records are as an
  INSERT at the time 0 leaves them.\<close>

definition stored_smith :: journalist where
  "stored_smith =
     new_journalist 0
       [(''name'', PStr ''A. Smith''), (''email'', PStr ''a.smith@techcrunch.com''),
        (''ai_relevance_score'', PFloat 0.2)]"

definition stored_blank_email :: journalist where
  "stored_blank_email = new_journalist 0 [(''name'', PStr ''A. Smith''), (''email'', PStr '' '')]"

definition stored_no_email :: journalist where
  "stored_no_email =
     new_journalist 0 [(''name'', PStr ''A. Smith''), (''ai_relevance_score'', PFloat 0.2)]"

definition stored_empty_email :: journalist where
  "stored_empty_email = new_journalist 0 [(''name'', PStr ''B. Jones''), (''email'', PStr [])]"

definition higher_score :: pydict where
  "higher_score = [(''email'', PStr ''a.smith@techcrunch.com''), (''ai_relevance_score'', PFloat 0.9)]"

definition higher_score_empty_email :: pydict where
  "higher_score_empty_email =
     [(''name'', PStr ''A. Smith''), (''email'', PStr []), (''ai_relevance_score'', PFloat 0.9)]"

definition only_bio :: pydict where
  "only_bio = [(''email'', PStr ''a.smith@techcrunch.com''), (''bio'', PStr ''Senior AI reporter'')]"

definition other_email :: pydict where
  "other_email = [(''name'', PStr ''A. Smith''), (''email'', PStr ''smith@example.org'')]"



section \<open>Properties of the two scores\<close>

subsection \<open>Conversion of an int to a float\<close>

lemma float_limit_large: "2 ^ 64 \<le> float_limit"
  by (simp add: float_limit_def)

lemma zero_converts: "\<not> float_limit \<le> 0"
  using float_limit_large by simp

subsection \<open>Range\<close>

lemma reputation_try_range:
  "reputation_try loads d = Some r \<Longrightarrow> 0 \<le> r \<and> r \<le> 1"
  by (auto simp: reputation_try_def Let_def split: option.splits)

lemma relevance_try_range:
  "relevance_try d = Some r \<Longrightarrow> 0 \<le> r \<and> r \<le> 1"
  by (auto simp: relevance_try_def text_score_def Let_def split: option.splits if_splits)

text \<open>
  The range of the two scores on the records of the model, whose numbers are finite:
  whatever the keys and the values (negative counts, the empty dictionary, text of any
  length, values of the wrong type), both scores lie between 0 and 1, since the result of
  the \<open>try\<close> block is clamped and the exception handler returns 0. The float NaN is not
  a value of the model. The source does not clamp it: \<open>nan or 0\<close> is NaN, every sum
  with NaN is NaN, and \<open>min(max(nan, 0.0), 1.0)\<close> is NaN, because every comparison with
  NaN is false; on the record \<open>{'ai_relevance_score': float('nan')}\<close> the reputation
  score of the source is NaN, which lies in no interval.
\<close>

lemma finite_scores_in_unit_interval:
  "0 \<le> calculate_reputation_score loads p \<and> calculate_reputation_score loads p \<le> 1 \<and>
   0 \<le> calculate_ai_relevance_score p \<and> calculate_ai_relevance_score p \<le> 1"
proof -
  have "0 \<le> calculate_reputation_score loads p \<and> calculate_reputation_score loads p \<le> 1"
    using reputation_try_range [of loads p]
    by (cases "reputation_try loads p") (simp_all add: calculate_reputation_score_def)
  moreover have "0 \<le> calculate_ai_relevance_score p \<and> calculate_ai_relevance_score p \<le> 1"
    using relevance_try_range [of p]
    by (cases "relevance_try p") (simp_all add: calculate_ai_relevance_score_def)
  ultimately show ?thesis by simp
qed

subsection \<open>Exceptions inside the computation\<close>

lemma malformed_specializations_reputation:
  "reputation_try loads [(''specializations'', PInt 5)] = None"
  by (simp add: reputation_try_def get_def or0_def calculate_article_score_def
      calculate_social_score_def calculate_engagement_score_def
      calculate_publication_quality_score_def calculate_expertise_score_def zero_converts
      calculate_academic_score_def eq0_def)

lemma malformed_specializations_relevance:
  "relevance_try [(''specializations'', PInt 5)] = None"
  by (simp add: relevance_try_def specializations_text_def get_def py_join_def strip_def lower_def)

text \<open>
  Claim C1, as stated, fails. On the record \<open>{'specializations': 5}\<close> both computations
  raise (iterating over an integer in the reputation analyzer, joining an integer in the
  relevance scorer); the two functions catch the exception and return 0.0, not the
  defaults 0.1 and 0.05.
\<close>

theorem exception_default_counterexample:
  "reputation_try (\<lambda>s. None) [(''specializations'', PInt 5)] = None \<and>
   calculate_reputation_score (\<lambda>s. None) [(''specializations'', PInt 5)] \<noteq> 0.1 \<and>
   relevance_try [(''specializations'', PInt 5)] = None \<and>
   calculate_ai_relevance_score [(''specializations'', PInt 5)] \<noteq> 0.05"
  by (simp add: calculate_reputation_score_def calculate_ai_relevance_score_def
      malformed_specializations_reputation malformed_specializations_relevance)

text \<open>
  Claim C1, amended. For every profile record on which the score computation raises an
  exception, \<open>calculate_reputation_score\<close> and \<open>calculate_ai_relevance_score\<close> catch it
  and return 0.0.
\<close>

theorem exception_default_is_zero:
  "(reputation_try loads p = None \<longrightarrow> calculate_reputation_score loads p = 0) \<and>
   (relevance_try p = None \<longrightarrow> calculate_ai_relevance_score p = 0)"
  by (simp add: calculate_reputation_score_def calculate_ai_relevance_score_def)

theorem exception_default_is_zero_witness:
  "reputation_try (\<lambda>s. None) [(''specializations'', PInt 5)] = None \<and>
   relevance_try [(''specializations'', PInt 5)] = None \<and>
   calculate_reputation_score (\<lambda>s. None) [(''specializations'', PInt 5)] = 0 \<and>
   calculate_ai_relevance_score [(''specializations'', PInt 5)] = 0"
  using exception_default_is_zero [of "\<lambda>s. None" "[(''specializations'', PInt 5)]"]
  by (simp add: malformed_specializations_reputation malformed_specializations_relevance)

subsection \<open>The empty record\<close>

lemma empty_record_reputation: "reputation_try loads [] = Some 0.16"
  by (simp add: reputation_try_def get_def or0_def calculate_article_score_def
      calculate_social_score_def calculate_engagement_score_def
      calculate_publication_quality_score_def calculate_expertise_score_def zero_converts
      calculate_academic_score_def eq0_def
      w_article_count_def w_social_followers_def w_engagement_rate_def
      w_publication_quality_def w_expertise_relevance_def)

lemma empty_record_relevance: "relevance_try [] = Some 0"
  by (simp add: relevance_try_def specializations_text_def get_def py_join_def strip_def lower_def)

text \<open>
  Claim C8. On the empty record \<open>{}\<close> neither computation raises an exception. The
  relevance score is exactly 0.0. The reputation score is the fixed value 0.16, made of
  the two documented component defaults and nothing else: the engagement default 0.5
  ("default score if no social data") and the publication default 0.3 ("default score
  for unknown publication"), each with its weight 0.2.
\<close>

theorem empty_record_scores:
  "relevance_try [] = Some 0 \<and>
   calculate_ai_relevance_score [] = 0 \<and>
   reputation_try loads [] = Some 0.16 \<and>
   calculate_reputation_score loads [] = 0.16 \<and>
   calculate_engagement_score [] = Some 0.5 \<and>
   calculate_publication_quality_score (get [] ''current_publication'' (PStr [])) = Some 0.3 \<and>
   calculate_reputation_score loads [] = w_engagement_rate * 0.5 + w_publication_quality * 0.3"
  by (simp add: calculate_reputation_score_def calculate_ai_relevance_score_def
      empty_record_reputation empty_record_relevance calculate_engagement_score_def
      calculate_publication_quality_score_def get_def
      w_engagement_rate_def w_publication_quality_def)

subsection \<open>Monotonicity in the article count\<close>

lemma article_score_mono:
  assumes "n \<le> m"
  shows "\<exists>a b. calculate_article_score (or0 (PInt n)) = Some a \<and>
               calculate_article_score (or0 (PInt m)) = Some b \<and> a \<le> b"
proof -
  have pos: "0 < log 10 (1000 + 1 :: real)" by simp
  show ?thesis
  proof (cases "m \<le> 0")
    case True
    with assms show ?thesis by (simp add: calculate_article_score_def or0_def)
  next
    case m: False
    show ?thesis
    proof (cases "n \<le> 0")
      case True
      have "0 \<le> log 10 (real_of_int m + 1)" using m by simp
      then have "0 \<le> log 10 (real_of_int m + 1) / log 10 (1000 + 1)" using pos by simp
      with True m show ?thesis by (simp add: calculate_article_score_def or0_def)
    next
      case False
      define A where "A = log 10 (real_of_int n + 1) / log 10 (1000 + 1)"
      define B where "B = log 10 (real_of_int m + 1) / log 10 (1000 + 1)"
      have "log 10 (real_of_int n + 1) \<le> log 10 (real_of_int m + 1)"
        using False assms by simp
      then have "A \<le> B"
        unfolding A_def B_def using pos by (simp add: divide_right_mono)
      then have le: "min A 1 \<le> min B 1" by (intro min.mono) simp_all
      have "calculate_article_score (or0 (PInt n)) = Some (min A 1)"
        using False by (simp add: calculate_article_score_def or0_def A_def)
      moreover have "calculate_article_score (or0 (PInt m)) = Some (min B 1)"
        using m by (simp add: calculate_article_score_def or0_def B_def)
      ultimately show ?thesis using le by blast
    qed
  qed
qed

lemma engagement_frame:
  "calculate_engagement_score ((''article_count'', x) # d) = calculate_engagement_score d"
  by (simp add: calculate_engagement_score_def get_def Let_def cong: option.case_cong if_cong)

lemma expertise_frame:
  "calculate_expertise_score loads a ((''article_count'', x) # d) =
   calculate_expertise_score loads a d"
  by (simp add: calculate_expertise_score_def get_def Let_def cong: option.case_cong if_cong)

lemma reputation_try_mono:
  assumes "n \<le> m"
  shows "(reputation_try loads ((''article_count'', PInt n) # p) = None \<and>
          reputation_try loads ((''article_count'', PInt m) # p) = None) \<or>
         (\<exists>r r'. reputation_try loads ((''article_count'', PInt n) # p) = Some r \<and>
                  reputation_try loads ((''article_count'', PInt m) # p) = Some r' \<and> r \<le> r')"
proof -
  obtain a b where a: "calculate_article_score (or0 (PInt n)) = Some a"
    and b: "calculate_article_score (or0 (PInt m)) = Some b" and ab: "a \<le> b"
    using article_score_mono [OF assms] by blast
  have g: "\<And>x k dflt. k \<noteq> ''article_count'' \<Longrightarrow>
             get ((''article_count'', x) # p) k dflt = get p k dflt"
    by (simp add: get_def)
  have h: "\<And>x dflt. get ((''article_count'', x) # p) ''article_count'' dflt = x"
    by (simp add: get_def)
  show ?thesis
    using ab
    by (auto simp: reputation_try_def Let_def g h a b engagement_frame expertise_frame
        w_article_count_def split: option.splits)
qed

text \<open>
  Claim C6. Take any profile record \<open>p\<close> and set its \<open>article_count\<close> to the integer
  \<open>n\<close>, then to a larger integer \<open>m\<close>, every other key unchanged: the reputation score
  of the second record is not below that of the first.
\<close>

theorem reputation_monotone_in_article_count:
  assumes "n \<le> m"
  shows "calculate_reputation_score loads ((''article_count'', PInt n) # p)
         \<le> calculate_reputation_score loads ((''article_count'', PInt m) # p)"
  using reputation_try_mono [OF assms, of loads p]
  by (auto simp: calculate_reputation_score_def)

theorem reputation_monotone_in_article_count_witness:
  "(10 :: int) \<le> 100 \<and>
   calculate_reputation_score (\<lambda>s. None)
     ((''article_count'', PInt 10) # [(''name'', PStr ''A. Smith''), (''twitter_followers'', PInt 15000)])
   \<le> calculate_reputation_score (\<lambda>s. None)
     ((''article_count'', PInt 100) # [(''name'', PStr ''A. Smith''), (''twitter_followers'', PInt 15000)])"
proof -
  have le: "(10 :: int) \<le> 100" by simp
  show ?thesis
    using le reputation_monotone_in_article_count [OF le, of "\<lambda>s. None"
        "[(''name'', PStr ''A. Smith''), (''twitter_followers'', PInt 15000)]"]
    by simp
qed

subsection \<open>The concrete scenario\<close>

text \<open>The text facts are evaluated on the combined text of the profile: its lower-case
  form, its eight words, the one keyword that occurs in it as a whole word, and the
  absence of every language, company, concept and explicit pattern.\<close>

lemma smith_lower:
  "lower ''Senior AI reporter covering machine learning A. Smith'' = smith_text"
  by code_simp

lemma smith_words: "length (split smith_text) = 8"
  by code_simp

lemma smith_not_blank: "strip smith_text \<noteq> []"
  by code_simp

lemma smith_keyword_counts:
  "list_all (\<lambda>k. rx_count (word_pattern k) None smith_text =
                 (if k = ''machine learning'' then 1 else 0)) (map fst ai_keywords)"
  by code_simp

lemma smith_no_language:
  "list_all (\<lambda>k. \<not> rx_search (word_pattern k) None smith_text) (map fst programming_languages)"
  by code_simp

lemma smith_no_company:
  "list_all (\<lambda>k. \<not> rx_search (word_pattern k) None smith_text) (map fst tech_companies)"
  by code_simp

lemma smith_no_concept:
  "list_all (\<lambda>k. \<not> rx_search (word_pattern k) None smith_text) (map fst ai_concepts)"
  by code_simp

lemma smith_not_explicit: "\<not> is_explicit_ai_journalist smith_text"
  by code_simp

lemma smith_major: "is_major_publication (PStr ''TechCrunch'') = Some True"
  by code_simp

lemma smith_tier1: "list_ex (contains (lower ''TechCrunch'')) tier1_publications"
  by code_simp

lemma ln9_ge_2: "2 \<le> ln (9 :: real)"
proof -
  have "exp 1 \<le> (3 :: real)" by (rule exp_le)
  then have "1 \<le> ln (3 :: real)" by (simp add: ln_ge_iff)
  moreover have "ln (9 :: real) = ln 3 + ln 3"
    using ln_mult [of "3 :: real" 3] by simp
  ultimately show ?thesis by simp
qed

lemma exp_minus_one_ge: "1 / 3 \<le> exp (- 1 :: real)"
proof -
  have "exp 1 \<le> (3 :: real)" by (rule exp_le)
  then have "inverse (3 :: real) \<le> inverse (exp 1)"
    by (intro le_imp_inverse_le) simp_all
  then show ?thesis by (simp add: exp_minus)
qed

lemma smith_ratio_bounds:
  "0 < (1 - exp (- 1 :: real)) / ln 9 \<and> (1 - exp (- 1 :: real)) / ln 9 \<le> 1 / 3"
proof -
  have a: "0 < 1 - exp (- 1 :: real)" by simp
  have b: "1 - exp (- 1 :: real) \<le> 2 / 3" using exp_minus_one_ge by simp
  have c: "0 < ln (9 :: real)" using ln9_ge_2 by simp
  have "(1 - exp (- 1 :: real)) / ln 9 \<le> (2 / 3) / 2"
    using b ln9_ge_2 a by (intro frac_le) simp_all
  then show ?thesis using a c by simp
qed

lemma smith_keyword_sum:
  "sum_list (map (keyword_contribution smith_text) ai_keywords) = 1 - exp (- 1)"
proof -
  have c: "\<And>kw. kw \<in> set ai_keywords \<Longrightarrow>
             rx_count (word_pattern (fst kw)) None smith_text =
             (if fst kw = ''machine learning'' then 1 else 0)"
    using smith_keyword_counts by (auto simp: list_all_iff)
  have "map (keyword_contribution smith_text) ai_keywords =
        map (\<lambda>kw. if fst kw = ''machine learning'' then snd kw * (1 - exp (- 1)) else 0) ai_keywords"
    by (rule map_cong) (simp_all add: keyword_contribution_def c)
  also have "sum_list \<dots> = 1 - exp (- 1)"
    by (simp add: ai_keywords_def)
  finally show ?thesis .
qed

lemma smith_keyword_score:
  "calculate_keyword_score smith_text = (1 - exp (- 1)) / ln 9"
proof -
  define q :: real where "q = (1 - exp (- 1)) / ln 9"
  have qb: "0 < q \<and> q \<le> 1 / 3" unfolding q_def by (rule smith_ratio_bounds)
  have m: "max (ln (9 :: real)) 1 = ln 9" using ln9_ge_2 by simp
  have "calculate_keyword_score smith_text = min ((1 - exp (- 1)) / ln 9) 1"
    by (simp add: calculate_keyword_score_def smith_words smith_keyword_sum m)
  also have "\<dots> = min q 1" by (simp only: q_def)
  also have "\<dots> = q" using qb by simp
  finally show ?thesis by (simp only: q_def)
qed

lemma no_match_weight:
  "list_all (\<lambda>k. \<not> rx_search (word_pattern k) None text) (map fst table) \<Longrightarrow>
   matched_weight text table = 0"
  by (induction table) (simp_all add: matched_weight_def)

lemma smith_text_score: "text_score smith_text = 0.4 * ((1 - exp (- 1)) / ln 9)"
proof -
  define q :: real where "q = (1 - exp (- 1)) / ln 9"
  have qb: "0 < q \<and> q \<le> 1 / 3" unfolding q_def by (rule smith_ratio_bounds)
  have k: "calculate_keyword_score smith_text = q"
    unfolding q_def by (rule smith_keyword_score)
  have "text_score smith_text = min (max (q * 0.4) 0) 1"
    by (simp add: text_score_def k calculate_programming_score_def
        calculate_company_score_def calculate_concept_score_def smith_not_explicit
        no_match_weight [OF smith_no_language] no_match_weight [OF smith_no_company]
        no_match_weight [OF smith_no_concept])
  also have "\<dots> = 0.4 * q" using qb by simp
  finally show ?thesis by (simp only: q_def)
qed

lemma smith_relevance_try: "relevance_try smith = Some (0.4 * ((1 - exp (- 1)) / ln 9))"
  by (simp add: relevance_try_def specializations_text_def smith_def get_def py_join_def
      smith_lower smith_not_blank smith_text_score)

lemma smith_relevance: "calculate_ai_relevance_score smith = 0.4 * ((1 - exp (- 1)) / ln 9)"
  by (simp add: calculate_ai_relevance_score_def smith_relevance_try)

lemma smith_relevance_bound: "calculate_ai_relevance_score smith < 0.14"
proof -
  define q :: real where "q = (1 - exp (- 1)) / ln 9"
  have qb: "0 < q \<and> q \<le> 1 / 3" unfolding q_def by (rule smith_ratio_bounds)
  have "calculate_ai_relevance_score smith = 0.4 * q"
    unfolding q_def by (rule smith_relevance)
  then show ?thesis using qb by simp
qed

lemma smith_social_bounds:
  "0 < log 10 15001 / log 10 (100001 :: real) \<and> log 10 15001 / log 10 (100001 :: real) \<le> 1"
proof -
  have a: "0 < log 10 (15001 :: real)" by simp
  have b: "log 10 (15001 :: real) \<le> log 10 100001" by simp
  have c: "0 < log 10 (100001 :: real)" by simp
  show ?thesis using a b c by simp
qed

lemma smith_social:
  "calculate_social_score (or0 (get smith ''twitter_followers'' PNone))
     (or0 (get smith ''linkedin_connections'' PNone)) = Some (log 10 15001 / log 10 100001)"
proof -
  define sv :: real where "sv = log 10 15001 / log 10 100001"
  have sb: "0 < sv \<and> sv \<le> 1" unfolding sv_def by (rule smith_social_bounds)
  have "calculate_social_score (or0 (get smith ''twitter_followers'' PNone))
          (or0 (get smith ''linkedin_connections'' PNone))
        = Some (min (log 10 15001 / log 10 100001) 1)"
    by (simp add: calculate_social_score_def smith_def get_def or0_def)
  also have "\<dots> = Some (min sv 1)" by (simp only: sv_def)
  also have "\<dots> = Some sv" using sb by simp
  finally show ?thesis by (simp only: sv_def)
qed

lemma smith_publication:
  "calculate_publication_quality_score (get smith ''current_publication'' (PStr [])) = Some 1"
  using smith_tier1 by (simp add: calculate_publication_quality_score_def smith_def get_def)

lemma smith_engagement: "calculate_engagement_score smith = Some 0.6"
  by (simp add: calculate_engagement_score_def smith_def get_def smith_major)

lemma smith_expertise:
  "calculate_expertise_score loads (or0 (get smith ''ai_relevance_score'' PNone)) smith = Some 0"
  by (simp add: calculate_expertise_score_def smith_def get_def or0_def zero_converts)

lemma smith_reputation_try:
  "reputation_try loads smith =
     Some (0.2 * (log 10 15001 / log 10 100001) + 0.2 * 0.6 + 0.2 * 1.0 + 0.1)"
proof -
  define sv :: real where "sv = log 10 15001 / log 10 100001"
  have sb: "0 < sv \<and> sv \<le> 1" unfolding sv_def by (rule smith_social_bounds)
  have soc: "calculate_social_score (or0 (get smith ''twitter_followers'' PNone))
     (or0 (get smith ''linkedin_connections'' PNone)) = Some sv"
    unfolding sv_def by (rule smith_social)
  have art: "calculate_article_score (or0 (get smith ''article_count'' PNone)) = Some 0"
    by (simp add: calculate_article_score_def smith_def get_def or0_def)
  have ac: "\<And>sp. calculate_academic_score (or0 (get smith ''citation_count'' PNone))
              (or0 (get smith ''h_index'' PNone)) (or0 (get smith ''publication_count'' PNone))
              sp = Some 0"
    by (simp add: calculate_academic_score_def smith_def get_def or0_def eq0_def)
  have pl: "get smith ''source_platform'' (PStr []) = PStr []"
    by (simp add: smith_def get_def)
  have ver: "truthy (get smith ''is_verified'' (PBool False))"
    by (simp add: smith_def get_def)
  have "reputation_try loads smith = Some (min (max (sv * 0.2 + 0.42) 0) 1)"
    by (simp add: reputation_try_def Let_def art soc smith_engagement smith_publication
        smith_expertise ac pl ver w_article_count_def w_social_followers_def
        w_engagement_rate_def w_publication_quality_def w_expertise_relevance_def)
  also have "\<dots> = Some (0.2 * sv + 0.2 * 0.6 + 0.2 * 1.0 + 0.1)" using sb by simp
  finally show ?thesis by (simp only: sv_def)
qed

text \<open>
  Claim C7, as stated, fails in its last part: the relevance score of the profile does
  not exceed 0.5.
\<close>

theorem smith_relevance_counterexample:
  "\<not> 0.5 < calculate_ai_relevance_score smith"
  using smith_relevance_bound by simp

text \<open>
  Claim C7, amended. For the profile \<open>{name: "A. Smith", bio: "Senior AI reporter covering
  machine learning", twitter_followers: 15000, is_verified: true, current_publication:
  "TechCrunch"}\<close> the reputation score is the sum of the publication score 1.0 (tier 1)
  with weight 0.2, the engagement score 0.6 with weight 0.2, the social score
  \<open>log10(15001) / log10(100001)\<close>, which is not zero, with weight 0.2, and the
  verification bonus 0.1. The relevance score is \<open>0.4 * (1 - exp(-1)) / ln 9\<close>, which is
  below 0.14: "machine learning" is the only keyword of the table that the text contains
  ("ai" is not in the table), and no pattern for an explicit AI journalist matches.
\<close>

theorem smith_scenario:
  "calculate_publication_quality_score (get smith ''current_publication'' (PStr [])) = Some 1 \<and>
   truthy (get smith ''is_verified'' (PBool False)) \<and>
   calculate_social_score (or0 (get smith ''twitter_followers'' PNone))
     (or0 (get smith ''linkedin_connections'' PNone)) = Some (log 10 15001 / log 10 100001) \<and>
   0 < log 10 15001 / log 10 (100001 :: real) \<and>
   calculate_reputation_score loads smith =
     0.2 * (log 10 15001 / log 10 100001) + 0.2 * 0.6 + 0.2 * 1.0 + 0.1 \<and>
   calculate_ai_relevance_score smith = 0.4 * ((1 - exp (- 1)) / ln 9) \<and>
   calculate_ai_relevance_score smith < 0.14"
proof -
  have "truthy (get smith ''is_verified'' (PBool False))"
    by (simp add: smith_def get_def)
  moreover have "calculate_reputation_score loads smith =
     0.2 * (log 10 15001 / log 10 100001) + 0.2 * 0.6 + 0.2 * 1.0 + 0.1"
    by (simp only: calculate_reputation_score_def smith_reputation_try option.case)
  ultimately show ?thesis
    using smith_publication smith_social smith_social_bounds smith_relevance
      smith_relevance_bound
    by blast
qed

section \<open>Properties of the identity merge\<close>

lemma find_first_Some:
  "find_first P xs = Some i \<Longrightarrow> i < length xs \<and> P (xs ! i) \<and> (\<forall>j<i. \<not> P (xs ! j))"
proof (induction xs arbitrary: i)
  case Nil
  then show ?case by simp
next
  case (Cons x xs)
  show ?case
  proof (cases "P x")
    case True
    with Cons.prems show ?thesis by simp
  next
    case False
    with Cons.prems obtain i' where i': "i = Suc i'" "find_first P xs = Some i'"
      by auto
    from Cons.IH [OF i'(2)] False i'(1) show ?thesis
      by (auto simp: less_Suc_eq_0_disj)
  qed
qed

lemma find_first_None: "find_first P xs = None \<longleftrightarrow> (\<forall>x\<in>set xs. \<not> P x)"
  by (induction xs) auto



lemma merge_items_other:
  "merge_items r d = Inr r' \<Longrightarrow> k \<notin> fst ` set d \<Longrightarrow> r' k = r k"
proof (induction d arbitrary: r)
  case Nil
  then show ?case by simp
next
  case (Cons kv d)
  obtain key v where kv: "kv = (key, v)" by (cases kv)
  have ne: "k \<noteq> key" and nin: "k \<notin> fst ` set d" using Cons.prems(2) kv by auto
  from Cons.prems(1) kv obtain r1 where r1: "merge_items r1 d = Inr r'" "r1 = r \<or> r1 = r(key := v)"
    by (auto simp: Let_def split: if_splits option.splits bool.splits)
  from Cons.IH [OF r1(1) nin] r1(2) ne show ?case by auto
qed

lemma merge_items_outside:
  "merge_items r d = Inr r' \<Longrightarrow> k \<notin> set columns \<Longrightarrow> r' k = r k"
proof (induction d arbitrary: r)
  case Nil
  then show ?case by simp
next
  case (Cons kv d)
  obtain key v where kv: "kv = (key, v)" by (cases kv)
  from Cons.prems(1) kv obtain r1 where r1: "merge_items r1 d = Inr r'"
    and r1k: "r1 = r \<or> (r1 = r(key := v) \<and> key \<in> set columns)"
    by (auto simp: Let_def split: if_splits option.splits bool.splits)
  from Cons.IH [OF r1 Cons.prems(2)] r1k Cons.prems(2) show ?case by auto
qed

lemma merge_items_key:
  "distinct (map fst d) \<Longrightarrow> merge_items r d = Inr r' \<Longrightarrow> (k, v) \<in> set d \<Longrightarrow>
   r' k = merged_value k (r k) v \<and>
   (k \<in> set columns \<and> v \<noteq> PNone \<and> r k \<noteq> PNone \<and> \<not> blank (r k) \<and> k \<in> set score_columns
      \<longrightarrow> py_gt v (r k) \<noteq> None)"
proof (induction d arbitrary: r)
  case Nil
  then show ?case by simp
next
  case (Cons kv d)
  obtain key x where kv: "kv = (key, x)" by (cases kv)
  have dist: "distinct (map fst d)" and knew: "key \<notin> fst ` set d"
    using Cons.prems(1) kv by auto
  show ?case
  proof (cases "(k, v) = (key, x)")
    case True
    then have k: "k = key" "v = x" by auto
    from Cons.prems(2) kv obtain r1 where r1: "merge_items r1 d = Inr r'"
      and r1k: "r1 key = merged_value key (r key) x"
      and ok: "key \<in> set columns \<and> x \<noteq> PNone \<and> r key \<noteq> PNone \<and> \<not> blank (r key) \<and>
               key \<in> set score_columns \<longrightarrow> py_gt x (r key) \<noteq> None"
      by (auto simp: Let_def merged_value_def split: if_splits option.splits bool.splits)
    from merge_items_other [OF r1 knew] r1k ok k show ?thesis by simp
  next
    case False
    then have mem: "(k, v) \<in> set d" using Cons.prems(3) kv by auto
    then have ne: "k \<noteq> key" using knew by force
    from Cons.prems(2) kv obtain r1 where r1: "merge_items r1 d = Inr r'"
      and r1k: "r1 = r \<or> r1 = r(key := x)"
      by (auto simp: Let_def split: if_splits option.splits bool.splits)
    have "r1 k = r k" using r1k ne by auto
    with Cons.IH [OF dist r1 mem] show ?thesis by simp
  qed
qed



lemma merged_value_same: "merged_value k v v = v"
  by (simp add: merged_value_def)


lemma map_of_dict_set: "map_of (dict_set k v d) = (map_of d)(k \<mapsto> v)"
  by (induction d) (auto simp: fun_eq_iff)

lemma keys_dict_set: "k \<in> fst ` set d \<Longrightarrow> map fst (dict_set k v d) = map fst d"
proof (induction d)
  case Nil
  then show ?case by simp
next
  case (Cons x d)
  obtain a b where x: "x = (a, b)" by (cases x)
  show ?case
  proof (cases "a = k")
    case True
    then show ?thesis by (simp add: x)
  next
    case False
    then have "k \<in> fst ` set d" using Cons.prems x by auto
    then show ?thesis using Cons.IH False by (simp add: x)
  qed
qed

lemma set_dict_set: "set (dict_set k v d) \<subseteq> insert (k, v) (set d)"
  by (induction d) (auto split: if_splits)

lemma keys_convert: "map fst (convert_specializations dumps d) = map fst d"
proof (cases "\<exists>l. map_of d ''specializations'' = Some (PList l)")
  case True
  then obtain l where l: "map_of d ''specializations'' = Some (PList l)" by blast
  then have "''specializations'' \<in> fst ` set d" by (metis map_of_eq_None_iff option.distinct(1))
  then show ?thesis using l by (simp add: convert_specializations_def keys_dict_set)
next
  case False
  then show ?thesis
    by (auto simp: convert_specializations_def split: option.splits pyval.splits)
qed

lemma get_convert:
  "k \<noteq> ''specializations'' \<Longrightarrow> get (convert_specializations dumps d) k x = get d k x"
  by (auto simp: convert_specializations_def get_def map_of_dict_set split: option.splits pyval.splits)


lemma well_typed_convert:
  assumes "well_typed d"
  shows "well_typed (convert_specializations dumps d)"
proof (cases "\<exists>l. map_of d ''specializations'' = Some (PList l)")
  case True
  then obtain l where l: "map_of d ''specializations'' = Some (PList l)" by blast
  have c: "convert_specializations dumps d = dict_set ''specializations'' (PStr (dumps l)) d"
    using l by (simp add: convert_specializations_def)
  have "distinct (map fst (convert_specializations dumps d))"
    using assms by (simp add: keys_convert well_typed_def)
  moreover have "\<forall>kv\<in>set (dict_set ''specializations'' (PStr (dumps l)) d).
      (case kv of (k, v) \<Rightarrow> k \<notin> set system_columns \<and> (k \<notin> set columns \<or> has_type k v))"
    using assms set_dict_set [of "''specializations''" "PStr (dumps l)" d]
    by (auto simp: well_typed_def list_all_iff system_columns_def string_columns_def)
  ultimately show ?thesis by (simp add: c well_typed_def list_all_iff)
next
  case False
  then have "convert_specializations dumps d = d"
    by (auto simp: convert_specializations_def split: option.splits pyval.splits)
  with assms show ?thesis by simp
qed







lemma get_mem:
  "get d k PNone = v \<Longrightarrow> v \<noteq> PNone \<Longrightarrow> (k, v) \<in> set d"
  by (auto simp: get_def split: option.splits dest: map_of_SomeD)


lemma merge_value_cases:
  assumes "distinct (map fst d)" "merge_items r d = Inr m"
  shows "m k = r k \<or> (m k = get d k PNone \<and> m k \<noteq> PNone)"
proof (cases "k \<in> fst ` set d")
  case False
  then show ?thesis using merge_items_other [OF assms(2)] by simp
next
  case True
  then obtain v where v: "(k, v) \<in> set d" by auto
  then have "get d k PNone = v" using assms(1) by (simp add: get_def)
  with merge_items_key [OF assms v] show ?thesis
    by (auto simp: merged_value_def split: if_splits)
qed





lemma email_column: "''email'' \<in> set columns"
  by (simp add: columns_def string_columns_def)





lemma columns_unchanged:
  assumes "merge_items r d = Inr m" "list_all (\<lambda>k. m k = r k) columns"
  shows "m = r"
proof
  fix k
  show "m k = r k"
  proof (cases "k \<in> set columns")
    case True
    then show ?thesis using assms(2) by (simp add: list_all_iff)
  next
    case False
    then show ?thesis using assms(1) by (rule merge_items_outside [rotated])
  qed
qed



lemma well_typed_tail: "well_typed (kv # d) \<Longrightarrow> well_typed d"
  by (simp add: well_typed_def)

lemma has_type_score:
  "k \<in> set score_columns \<Longrightarrow> has_type k v \<Longrightarrow> v = PNone \<or> (\<exists>x. v = PFloat x)"
  by (cases v) (auto simp: score_columns_def string_columns_def integer_columns_def boolean_columns_def)

lemma row_typed_update:
  "row_typed r \<Longrightarrow> has_type k v \<Longrightarrow> row_typed (r(k := v))"
  by (auto simp: row_typed_def list_all_iff)

lemma row_typed_col: "row_typed r \<Longrightarrow> k \<in> set columns \<Longrightarrow> has_type k (r k)"
  by (auto simp: row_typed_def list_all_iff)

lemma merge_items_succeeds:
  "well_typed d \<Longrightarrow> row_typed r \<Longrightarrow> \<exists>m. merge_items r d = Inr m"
proof (induction d arbitrary: r)
  case Nil
  then show ?case by simp
next
  case (Cons kv d)
  obtain k v where kv: "kv = (k, v)" by (cases kv)
  have wt: "well_typed d" using Cons.prems(1) by (rule well_typed_tail)
  have ty: "k \<in> set columns \<Longrightarrow> has_type k v"
    using Cons.prems(1) kv by (auto simp: well_typed_def)
  have same: "\<exists>m. merge_items r d = Inr m" using Cons.IH [OF wt Cons.prems(2)] .
  have upd: "k \<in> set columns \<Longrightarrow> \<exists>m. merge_items (r(k := v)) d = Inr m"
    by (rule Cons.IH [OF wt row_typed_update [OF Cons.prems(2) ty]])
  show ?case
  proof (cases "k \<in> set columns \<and> v \<noteq> PNone")
    case False
    then show ?thesis using same kv by auto
  next
    case True
    show ?thesis
    proof (cases "r k = PNone \<or> blank (r k)")
      case c: True
      then show ?thesis using True upd kv by auto
    next
      case c: False
      show ?thesis
      proof (cases "k \<in> set score_columns")
        case False
        then show ?thesis using True c same kv by auto
      next
        case sc: True
        obtain x where x: "v = PFloat x" using has_type_score [OF sc] ty True by auto
        obtain y where y: "r k = PFloat y"
          using has_type_score [OF sc row_typed_col [OF Cons.prems(2)]] True c by auto
        show ?thesis
          using True c sc same upd kv x y by (cases "y < x") (auto simp: py_gt_def)
      qed
    qed
  qed
qed

lemma well_typed_email:
  assumes "well_typed d"
  shows "get d ''email'' PNone = PNone \<or> (\<exists>x. get d ''email'' PNone = PStr x)"
proof (cases "map_of d ''email''")
  case None
  then show ?thesis by (simp add: get_def)
next
  case (Some v)
  then have "(''email'', v) \<in> set d" by (rule map_of_SomeD)
  then have "has_type ''email'' v"
    using assms email_column by (auto simp: well_typed_def list_all_iff)
  then show ?thesis using Some
    by (cases v) (auto simp: get_def integer_columns_def float_columns_def boolean_columns_def)
qed

lemma email_taken_mem:
  "email_taken s i e \<Longrightarrow> \<exists>r\<in>set s. r ''email'' = e"
  by (auto simp: email_taken_def list_ex_iff)

lemma no_conflict:
  assumes wt: "well_typed d" and found: "find_existing s d = Some i"
    and m: "merge_items (s ! i) (convert_specializations dumps d) = Inr m"
    and email: "get d ''email'' PNone \<noteq> PStr []"
  shows "\<not> (m ''email'' \<noteq> (s ! i) ''email'' \<and> email_taken s i (m ''email''))"
proof
  assume a: "m ''email'' \<noteq> (s ! i) ''email'' \<and> email_taken s i (m ''email'')"
  define e where "e = get d ''email'' PNone"
  have dist1: "distinct (map fst (convert_specializations dumps d))"
    using well_typed_convert [OF wt] by (simp add: well_typed_def)
  have g: "get (convert_specializations dumps d) ''email'' PNone = e"
    by (simp add: get_convert e_def)
  have me: "m ''email'' = e" and ne: "e \<noteq> PNone"
    using merge_value_cases [OF dist1 m, of "''email''"] a unfolding g by auto
  have te: "truthy e"
    using well_typed_email [OF wt] email ne by (auto simp: e_def)
  have "find_first (\<lambda>r. r ''email'' = e) s = None"
  proof (rule ccontr)
    assume "find_first (\<lambda>r. r ''email'' = e) s \<noteq> None"
    then have "find_first (\<lambda>r. r ''email'' = e) s = Some i"
      using found te by (auto simp: find_existing_def Let_def e_def)
    then have "(s ! i) ''email'' = e" by (auto dest: find_first_Some)
    with a me show False by simp
  qed
  then have "\<forall>r\<in>set s. r ''email'' \<noteq> e" by (simp add: find_first_None)
  with a me email_taken_mem [of s i e] show False by auto
qed

lemma storable_get: "storable d \<Longrightarrow> fits_integer (get d k PNone)"
  by (auto simp: storable_def get_def list_all_iff split: option.splits dest!: map_of_SomeD)

lemma storable_convert:
  assumes "storable d"
  shows "storable (convert_specializations dumps d)"
proof (cases "\<exists>l. map_of d ''specializations'' = Some (PList l)")
  case True
  then obtain l where l: "map_of d ''specializations'' = Some (PList l)" by blast
  have "\<forall>kv\<in>insert (''specializations'', PStr (dumps l)) (set d). fits_integer (snd kv)"
    using assms by (auto simp: storable_def list_all_iff)
  then have "\<forall>kv\<in>set (dict_set ''specializations'' (PStr (dumps l)) d). fits_integer (snd kv)"
    using set_dict_set [of "''specializations''" "PStr (dumps l)" d] by blast
  then show ?thesis using l
    by (auto simp: convert_specializations_def storable_def list_all_iff)
next
  case False
  then have "convert_specializations dumps d = d"
    by (auto simp: convert_specializations_def split: option.splits pyval.splits)
  with assms show ?thesis by simp
qed

lemma no_overflow:
  assumes "distinct (map fst d)" "storable d" "merge_items r d = Inr m"
  shows "\<not> list_ex (\<lambda>k. m k \<noteq> r k \<and> \<not> fits_integer (m k)) columns"
proof -
  have "\<And>k. m k \<noteq> r k \<Longrightarrow> fits_integer (m k)"
    using merge_value_cases [OF assms(1,3)] storable_get [OF assms(2)] by metis
  then show ?thesis by (auto simp: list_ex_iff)
qed

text \<open>The result of a call that finds the record \<open>i\<close>, when the update loop ends with the
  object \<open>m\<close>, every changed value can be bound and the email does not clash: the stored
  record becomes \<open>m\<close>, with the time of the UPDATE when there is one.\<close>

lemma add_journalist_merge:
  assumes found: "find_existing s d = Some i"
    and m: "merge_items (s ! i) (convert_specializations dumps d) = Inr m"
    and ov: "\<not> list_ex (\<lambda>k. m k \<noteq> (s ! i) k \<and> \<not> fits_integer (m k)) columns"
    and nc: "\<not> (m ''email'' \<noteq> (s ! i) ''email'' \<and> email_taken s i (m ''email''))"
  shows "\<exists>m'. add_journalist dumps attrs now s d =
                (s[i := m'], convert_specializations dumps d, Inr (Some m')) \<and>
              (m' = m \<or> m' = m(''last_updated'' := PDateTime now))"
proof (cases "list_all (\<lambda>k. m k = (s ! i) k) columns")
  case True
  then have "m = s ! i" using m by (intro columns_unchanged)
  then have "s[i := m] = s" by simp
  moreover have "add_journalist dumps attrs now s d =
                  (s, convert_specializations dumps d, Inr (Some m))"
    using found m True by (simp add: add_journalist_def)
  ultimately show ?thesis by auto
next
  case False
  then have "add_journalist dumps attrs now s d =
        (s[i := m(''last_updated'' := PDateTime now)], convert_specializations dumps d,
         Inr (Some (m(''last_updated'' := PDateTime now))))"
    using found m ov nc by (simp add: add_journalist_def Let_def)
  then show ?thesis by auto
qed

lemmas db_eval =
  add_journalist_def find_existing_def get_def new_journalist_def columns_def string_columns_def
  integer_columns_def float_columns_def boolean_columns_def system_columns_def
  column_default_def convert_specializations_def well_typed_def row_typed_def
  score_columns_def py_gt_def email_taken_def storable_def

lemma stored_smith_typed: "row_typed stored_smith"
  by (simp add: stored_smith_def db_eval)

text \<open>
  Claim C3, as stated, fails when the UPDATE is rolled back. The store holds the record
  of A. Smith, without email and with the score 0.2, and the record of B. Jones, whose
  email is the empty string. The incoming record has the name A. Smith, the empty string
  as email and the score 0.9. The empty email is not looked up; the record is found by
  its name, the loop fills the missing email with the empty string and raises the
  score, the UPDATE violates the UNIQUE constraint on \<open>email\<close>, and after the rollback
  the stored score is still 0.2, although the incoming score is strictly greater.
\<close>

theorem merge_score_improves_counterexample:
  "find_existing [stored_no_email, stored_empty_email] higher_score_empty_email = Some 0 \<and>
   stored_no_email ''ai_relevance_score'' = PFloat 0.2 \<and>
   get higher_score_empty_email ''ai_relevance_score'' PNone = PFloat 0.9 \<and>
   add_journalist (\<lambda>l. ''[]'') [] 60 [stored_no_email, stored_empty_email] higher_score_empty_email
     = ([stored_no_email, stored_empty_email], higher_score_empty_email, Inr None) \<and>
   (fst (add_journalist (\<lambda>l. ''[]'') [] 60 [stored_no_email, stored_empty_email]
           higher_score_empty_email) ! 0) ''ai_relevance_score'' = PFloat 0.2"
proof -
  have fe: "find_existing [stored_no_email, stored_empty_email] higher_score_empty_email = Some 0"
    by (simp add: higher_score_empty_email_def stored_no_email_def stored_empty_email_def db_eval)
  have sc: "stored_no_email ''ai_relevance_score'' = PFloat 0.2"
    by (simp add: stored_no_email_def db_eval)
  have inc: "get higher_score_empty_email ''ai_relevance_score'' PNone = PFloat 0.9"
    by (simp add: higher_score_empty_email_def db_eval)
  have conv: "convert_specializations (\<lambda>l. ''[]'') higher_score_empty_email = higher_score_empty_email"
    by (simp add: higher_score_empty_email_def convert_specializations_def)
  have nm: "stored_no_email ''name'' = PStr ''A. Smith''"
    by (simp add: stored_no_email_def db_eval)
  have em: "stored_no_email ''email'' = PNone"
    by (simp add: stored_no_email_def db_eval)
  have nb: "strip ''A. Smith'' \<noteq> []"
    by (simp add: strip_def is_space_def)
  have m: "merge_items stored_no_email higher_score_empty_email =
           Inr (stored_no_email(''email'' := PStr [], ''ai_relevance_score'' := PFloat 0.9))"
    by (simp add: higher_score_empty_email_def nm em sc nb Let_def columns_def string_columns_def
        float_columns_def score_columns_def py_gt_def)
  have taken: "email_taken [stored_no_email, stored_empty_email] 0 (PStr [])"
    by (simp add: email_taken_def stored_empty_email_def new_journalist_def get_def columns_def
        string_columns_def)
  have res: "add_journalist (\<lambda>l. ''[]'') [] 60 [stored_no_email, stored_empty_email]
               higher_score_empty_email
             = ([stored_no_email, stored_empty_email], higher_score_empty_email, Inr None)"
    using taken
    by (simp add: add_journalist_def conv fe m em sc Let_def columns_def string_columns_def
        integer_columns_def float_columns_def boolean_columns_def)
  show ?thesis using fe sc inc res by simp
qed

text \<open>
  Claim C3, amended. The incoming record is well-typed, with integers that SQLite can
  store, and its email is not the empty string; it matches the stored record \<open>i\<close>, whose
  values have the types of their columns. When the stored \<open>ai_relevance_score\<close> is the
  number \<open>c\<close> and the incoming one is the number \<open>v\<close>, the call returns the updated
  record, only row \<open>i\<close> of the store is replaced, and its score is \<open>v\<close> when \<open>v > c\<close>
  and still \<open>c\<close> when \<open>v \<le> c\<close>.
\<close>

theorem merge_score_improves:
  assumes wt: "well_typed d"
    and st: "storable d"
    and found: "find_existing s d = Some i"
    and rt: "row_typed (s ! i)"
    and stored: "(s ! i) ''ai_relevance_score'' = PFloat c"
    and incoming: "get d ''ai_relevance_score'' PNone = PFloat v"
    and email: "get d ''email'' PNone \<noteq> PStr []"
  shows "\<exists>m. add_journalist dumps attrs now s d =
               (s[i := m], convert_specializations dumps d, Inr (Some m)) \<and>
             m ''ai_relevance_score'' = PFloat (if v > c then v else c)"
proof -
  define d1 where "d1 = convert_specializations dumps d"
  have wt1: "well_typed d1" unfolding d1_def using wt by (rule well_typed_convert)
  then have dist1: "distinct (map fst d1)" by (simp add: well_typed_def)
  have st1: "storable d1" unfolding d1_def using st by (rule storable_convert)
  obtain m where m: "merge_items (s ! i) d1 = Inr m"
    using merge_items_succeeds [OF wt1 rt] by blast
  have nc: "\<not> (m ''email'' \<noteq> (s ! i) ''email'' \<and> email_taken s i (m ''email''))"
    using no_conflict [OF wt found] m email by (simp add: d1_def)
  have ov: "\<not> list_ex (\<lambda>k. m k \<noteq> (s ! i) k \<and> \<not> fits_integer (m k)) columns"
    using dist1 st1 m by (rule no_overflow)
  obtain m' where res: "add_journalist dumps attrs now s d = (s[i := m'], d1, Inr (Some m'))"
    and m': "m' = m \<or> m' = m(''last_updated'' := PDateTime now)"
    using add_journalist_merge [OF found m [unfolded d1_def] ov nc, of attrs now]
    by (auto simp: d1_def)
  have "get d1 ''ai_relevance_score'' PNone = PFloat v"
    using incoming by (simp add: d1_def get_convert)
  then have "(''ai_relevance_score'', PFloat v) \<in> set d1" by (simp add: get_mem)
  from merge_items_key [OF dist1 m this]
  have "m ''ai_relevance_score'' = merged_value ''ai_relevance_score'' (PFloat c) (PFloat v)"
    using stored by simp
  also have "\<dots> = PFloat (if v > c then v else c)"
    by (simp add: merged_value_def columns_def float_columns_def score_columns_def py_gt_def)
  finally have "m' ''ai_relevance_score'' = PFloat (if v > c then v else c)"
    using m' by auto
  then show ?thesis using res by (auto simp: d1_def)
qed

theorem merge_score_improves_witness:
  "well_typed higher_score \<and>
   storable higher_score \<and>
   find_existing [stored_smith] higher_score = Some 0 \<and>
   row_typed ([stored_smith] ! 0) \<and>
   ([stored_smith] ! 0) ''ai_relevance_score'' = PFloat 0.2 \<and>
   get higher_score ''ai_relevance_score'' PNone = PFloat 0.9 \<and>
   get higher_score ''email'' PNone \<noteq> PStr [] \<and>
   (\<exists>m. add_journalist (\<lambda>l. ''[]'') [] 60 [stored_smith] higher_score =
          ([stored_smith][0 := m], convert_specializations (\<lambda>l. ''[]'') higher_score, Inr (Some m)) \<and>
        m ''ai_relevance_score'' = PFloat 0.9)"
proof -
  have h1: "well_typed higher_score" by (simp add: higher_score_def db_eval)
  have h1': "storable higher_score" by (simp add: higher_score_def db_eval)
  have h2: "find_existing [stored_smith] higher_score = Some 0"
    by (simp add: higher_score_def stored_smith_def db_eval)
  have h3: "row_typed ([stored_smith] ! 0)" by (simp add: stored_smith_typed)
  have h4: "([stored_smith] ! 0) ''ai_relevance_score'' = PFloat 0.2"
    by (simp add: stored_smith_def db_eval)
  have h5: "get higher_score ''ai_relevance_score'' PNone = PFloat 0.9"
    by (simp add: higher_score_def db_eval)
  have h6: "get higher_score ''email'' PNone \<noteq> PStr []"
    by (simp add: higher_score_def db_eval)
  show ?thesis
    using h1 h1' h2 h3 h4 h5 h6
      merge_score_improves [OF h1 h1' h2 h3 h4 h5 h6, of "\<lambda>l. ''[]''" "[]" 60]
    by simp
qed

lemma merge_items_no_scores:
  "\<forall>kv\<in>set d. fst kv \<in> set score_columns \<longrightarrow> snd kv = PNone \<Longrightarrow> \<exists>m. merge_items r d = Inr m"
proof (induction d arbitrary: r)
  case Nil
  then show ?case by simp
next
  case (Cons kv d)
  obtain k v where kv: "kv = (k, v)" by (cases kv)
  have rest: "\<And>r'. \<exists>m. merge_items r' d = Inr m" using Cons by simp
  have sc: "k \<in> set score_columns \<Longrightarrow> v = PNone" using Cons.prems kv by simp
  show ?case
    using rest [of r] rest [of "r(k := v)"] sc by (auto simp: kv Let_def)
qed

text \<open>
  Claim C4, as stated, fails for the field \<open>last_updated\<close>. The stored record of
  A. Smith was inserted at the time 0 and has no \<open>bio\<close>; the incoming record has the
  email of that record and a \<open>bio\<close>, nothing else. The call, made at the time 60, fills
  the \<open>bio\<close>, and the UPDATE that writes it also sets \<open>last_updated\<close> to the time of the
  call: a field of the existing record other than \<open>bio\<close> has changed.
\<close>

theorem merge_fills_bio_counterexample:
  "find_existing [stored_smith] only_bio = Some 0 \<and>
   stored_smith ''bio'' = PNone \<and>
   list_all (\<lambda>(k, v). k = ''bio'' \<or> k = ''email'' \<or> v = PNone) only_bio \<and>
   (fst (add_journalist (\<lambda>l. ''[]'') [] 60 [stored_smith] only_bio) ! 0) ''bio''
     = PStr ''Senior AI reporter'' \<and>
   stored_smith ''last_updated'' = PDateTime 0 \<and>
   (fst (add_journalist (\<lambda>l. ''[]'') [] 60 [stored_smith] only_bio) ! 0) ''last_updated''
     = PDateTime 60"
proof -
  have fe: "find_existing [stored_smith] only_bio = Some 0"
    by (simp add: only_bio_def stored_smith_def db_eval)
  have bio: "stored_smith ''bio'' = PNone" by (simp add: stored_smith_def db_eval)
  have em: "stored_smith ''email'' = PStr ''a.smith@techcrunch.com''"
    by (simp add: stored_smith_def db_eval)
  have lu: "stored_smith ''last_updated'' = PDateTime 0"
    by (simp add: stored_smith_def db_eval)
  have nb: "strip ''a.smith@techcrunch.com'' \<noteq> []"
    by (simp add: strip_def is_space_def)
  have conv: "convert_specializations (\<lambda>l. ''[]'') only_bio = only_bio"
    by (simp add: only_bio_def convert_specializations_def)
  have m: "merge_items stored_smith only_bio = Inr (stored_smith(''bio'' := PStr ''Senior AI reporter''))"
    by (simp add: only_bio_def em bio nb Let_def columns_def string_columns_def score_columns_def)
  have res: "fst (add_journalist (\<lambda>l. ''[]'') [] 60 [stored_smith] only_bio) =
             [stored_smith(''bio'' := PStr ''Senior AI reporter'', ''last_updated'' := PDateTime 60)]"
    by (simp add: add_journalist_def conv fe m bio Let_def email_taken_def columns_def
        string_columns_def integer_columns_def float_columns_def boolean_columns_def)
  have only: "list_all (\<lambda>(k, v). k = ''bio'' \<or> k = ''email'' \<or> v = PNone) only_bio"
    by (simp add: only_bio_def)
  show ?thesis using fe bio lu only by (simp add: res)
qed

text \<open>
  Claim C4, amended. The incoming record matches the stored record \<open>i\<close>, whose \<open>bio\<close> is
  NULL; besides its identity key \<open>idk\<close> (the name or the email) it has the value \<open>None\<close>
  for every key except \<open>bio\<close>. Then the call returns the stored record with \<open>bio\<close> set to
  the incoming text and \<open>last_updated\<close> set to the time of the call: every other field of
  that record, and every other row of the store, is unchanged.
\<close>

theorem merge_fills_bio:
  assumes wt: "well_typed d"
    and found: "find_existing s d = Some i"
    and stored: "(s ! i) ''bio'' = PNone"
    and incoming: "get d ''bio'' PNone = PStr b"
    and idk: "idk = ''name'' \<or> idk = ''email''"
    and only: "list_all (\<lambda>(k, v). k = ''bio'' \<or> k = idk \<or> v = PNone) d"
  shows "add_journalist dumps attrs now s d =
           (s[i := (s ! i)(''bio'' := PStr b, ''last_updated'' := PDateTime now)], d,
            Inr (Some ((s ! i)(''bio'' := PStr b, ''last_updated'' := PDateTime now))))"
proof -
  have dist: "distinct (map fst d)" using wt by (simp add: well_typed_def)
  have others: "\<And>k v. (k, v) \<in> set d \<Longrightarrow> k \<noteq> ''bio'' \<Longrightarrow> k \<noteq> idk \<Longrightarrow> v = PNone"
    using only by (auto simp: list_all_iff)
  have absent: "\<And>k. k \<noteq> ''bio'' \<Longrightarrow> k \<noteq> idk \<Longrightarrow> get d k PNone = PNone"
    using others by (auto simp: get_def split: option.splits dest: map_of_SomeD)
  have conv: "convert_specializations dumps d = d"
  proof -
    have "get d ''specializations'' PNone = PNone" using idk by (intro absent) auto
    then show ?thesis
      by (auto simp: convert_specializations_def get_def split: option.splits pyval.splits)
  qed
  have "\<forall>kv\<in>set d. fst kv \<in> set score_columns \<longrightarrow> snd kv = PNone"
    using others idk by (auto simp: score_columns_def)
  then obtain m where m: "merge_items (s ! i) d = Inr m"
    using merge_items_no_scores by blast
  have bio: "(''bio'', PStr b) \<in> set d" using incoming by (simp add: get_mem)
  have key_match: "\<And>v. (idk, v) \<in> set d \<Longrightarrow> v \<noteq> PNone \<Longrightarrow> (s ! i) idk = v"
  proof -
    fix v assume mem: "(idk, v) \<in> set d" and ne: "v \<noteq> PNone"
    have gv: "get d idk PNone = v" using mem dist by (simp add: get_def)
    show "(s ! i) idk = v"
    proof (cases "idk = ''email''")
      case True
      have "get d ''name'' PNone = PNone" using True by (intro absent) auto
      then have "find_first (\<lambda>r. r ''email'' = v) s = Some i"
        using found gv True by (auto simp: find_existing_def Let_def split: if_splits)
      then show ?thesis using True by (auto dest: find_first_Some)
    next
      case False
      then have n: "idk = ''name''" using idk by simp
      have "get d ''email'' PNone = PNone" using n by (intro absent) auto
      then have "find_first (\<lambda>r. r ''name'' = v) s = Some i"
        using found gv n by (auto simp: find_existing_def Let_def split: if_splits)
      then show ?thesis using n by (auto dest: find_first_Some)
    qed
  qed
  have eq: "m = (s ! i)(''bio'' := PStr b)"
  proof
    fix k
    show "m k = ((s ! i)(''bio'' := PStr b)) k"
    proof (cases "k \<in> fst ` set d")
      case False
      then have "k \<noteq> ''bio''" using bio by force
      then show ?thesis using merge_items_other [OF m False] by simp
    next
      case True
      then obtain v where v: "(k, v) \<in> set d" by auto
      have mk: "m k = merged_value k ((s ! i) k) v"
        using merge_items_key [OF dist m v] by simp
      show ?thesis
      proof (cases "k = ''bio''")
        case True
        then have "v = PStr b" using v bio dist by (meson eq_key_imp_eq_value)
        then show ?thesis
          using mk True stored by (simp add: merged_value_def columns_def string_columns_def)
      next
        case nb: False
        show ?thesis
        proof (cases "v = PNone")
          case True
          then show ?thesis using mk nb by (simp add: merged_value_def)
        next
          case False
          then have "k = idk" using others [OF v nb] by auto
          then have "(s ! i) k = v" using key_match v False by simp
          then show ?thesis using mk nb by (simp add: merged_value_same)
        qed
      qed
    qed
  qed
  have biocol: "''bio'' \<in> set columns" by (simp add: columns_def string_columns_def)
  have changed: "\<not> list_all (\<lambda>k. m k = (s ! i) k) columns"
    using biocol stored by (auto simp: eq list_all_iff)
  have ov: "\<not> list_ex (\<lambda>k. m k \<noteq> (s ! i) k \<and> \<not> fits_integer (m k)) columns"
    by (auto simp: eq list_ex_iff)
  have "m ''email'' = (s ! i) ''email''" by (simp add: eq)
  then have "add_journalist dumps attrs now s d =
      (s[i := m(''last_updated'' := PDateTime now)], d,
       Inr (Some (m(''last_updated'' := PDateTime now))))"
    using found m conv changed ov by (simp add: add_journalist_def Let_def)
  then show ?thesis by (simp add: eq)
qed

theorem merge_fills_bio_witness:
  "well_typed only_bio \<and>
   find_existing [stored_smith] only_bio = Some 0 \<and>
   ([stored_smith] ! 0) ''bio'' = PNone \<and>
   get only_bio ''bio'' PNone = PStr ''Senior AI reporter'' \<and>
   list_all (\<lambda>(k, v). k = ''bio'' \<or> k = ''email'' \<or> v = PNone) only_bio \<and>
   add_journalist (\<lambda>l. ''[]'') [] 60 [stored_smith] only_bio =
     ([stored_smith][0 := ([stored_smith] ! 0)
         (''bio'' := PStr ''Senior AI reporter'', ''last_updated'' := PDateTime 60)],
      only_bio,
      Inr (Some (([stored_smith] ! 0)
         (''bio'' := PStr ''Senior AI reporter'', ''last_updated'' := PDateTime 60))))"
proof -
  have h1: "well_typed only_bio" by (simp add: only_bio_def db_eval)
  have h2: "find_existing [stored_smith] only_bio = Some 0"
    by (simp add: only_bio_def stored_smith_def db_eval)
  have h3: "([stored_smith] ! 0) ''bio'' = PNone" by (simp add: stored_smith_def db_eval)
  have h4: "get only_bio ''bio'' PNone = PStr ''Senior AI reporter''"
    by (simp add: only_bio_def db_eval)
  have h5: "''email'' = ''name'' \<or> ''email'' = ''email''" by simp
  have h6: "list_all (\<lambda>(k, v). k = ''bio'' \<or> k = ''email'' \<or> v = PNone) only_bio"
    by (simp add: only_bio_def)
  show ?thesis
    using h1 h2 h3 h4 h6 merge_fills_bio [OF h1 h2 h3 h4 h5 h6, of "\<lambda>l. ''[]''" "[]" 60]
    by simp
qed

text \<open>
  Claim C10, as stated, fails when the stored email is not empty but blank. The stored
  record has the name \<open>A. Smith\<close> and the email \<open>" "\<close> (one space); the incoming record
  has the same name and the email \<open>smith@example.org\<close>, which no stored record holds.
  The lookup falls through to the name, and the update loop, which treats a blank string
  as a gap, overwrites the stored email.
\<close>

theorem merge_name_fallthrough_counterexample:
  "get other_email ''email'' PNone = PStr ''smith@example.org'' \<and>
   find_first (\<lambda>r. r ''email'' = PStr ''smith@example.org'') [stored_blank_email] = None \<and>
   find_first (\<lambda>r. r ''name'' = get other_email ''name'' PNone) [stored_blank_email] = Some 0 \<and>
   stored_blank_email ''email'' = PStr '' '' \<and>
   (fst (add_journalist (\<lambda>l. ''[]'') [] 60 [stored_blank_email] other_email) ! 0) ''email''
     = PStr ''smith@example.org''"
proof -
  have fe: "find_existing [stored_blank_email] other_email = Some 0"
    by (simp add: other_email_def stored_blank_email_def db_eval)
  have nm: "stored_blank_email ''name'' = PStr ''A. Smith''"
    by (simp add: stored_blank_email_def db_eval)
  have em: "stored_blank_email ''email'' = PStr '' ''"
    by (simp add: stored_blank_email_def db_eval)
  have nb: "strip ''A. Smith'' \<noteq> []" "strip '' '' = []"
    by (simp_all add: strip_def is_space_def)
  have conv: "convert_specializations (\<lambda>l. ''[]'') other_email = other_email"
    by (simp add: other_email_def convert_specializations_def)
  have m: "merge_items stored_blank_email other_email =
           Inr (stored_blank_email(''email'' := PStr ''smith@example.org''))"
    by (simp add: other_email_def nm em nb Let_def columns_def string_columns_def score_columns_def)
  have res: "fst (add_journalist (\<lambda>l. ''[]'') [] 60 [stored_blank_email] other_email) =
             [stored_blank_email(''email'' := PStr ''smith@example.org'',
                                 ''last_updated'' := PDateTime 60)]"
    by (simp add: add_journalist_def conv fe m em Let_def email_taken_def columns_def
        string_columns_def integer_columns_def float_columns_def boolean_columns_def)
  have g1: "get other_email ''email'' PNone = PStr ''smith@example.org''"
    by (simp add: other_email_def get_def)
  have g2: "find_first (\<lambda>r. r ''email'' = PStr ''smith@example.org'') [stored_blank_email] = None"
    by (simp add: em)
  have g3: "find_first (\<lambda>r. r ''name'' = get other_email ''name'' PNone) [stored_blank_email] = Some 0"
    by (simp add: other_email_def get_def nm)
  show ?thesis using g1 g2 g3 em by (simp add: res)
qed

text \<open>
  Claim C10, amended. The incoming record is well-typed, with integers that SQLite can
  store; it has a non-empty email that no stored record holds and a non-empty name;
  \<open>i\<close> is the first stored record with that name, its values have the types of their
  columns, and its email is a string that is not blank (not empty after \<open>strip\<close>). Then
  the incoming record is merged into record \<open>i\<close>, whose email stays as it was, and no
  record is added.
\<close>

theorem merge_name_fallthrough:
  assumes wt: "well_typed d"
    and st: "storable d"
    and rt: "row_typed (s ! i)"
    and email: "get d ''email'' PNone = PStr e" "e \<noteq> []"
    and noemail: "find_first (\<lambda>r. r ''email'' = PStr e) s = None"
    and name: "get d ''name'' PNone = PStr n" "n \<noteq> []"
    and byname: "find_first (\<lambda>r. r ''name'' = PStr n) s = Some i"
    and stored: "(s ! i) ''email'' = PStr e'" "strip e' \<noteq> []"
  shows "\<exists>m. add_journalist dumps attrs now s d =
               (s[i := m], convert_specializations dumps d, Inr (Some m)) \<and>
             m ''email'' = PStr e' \<and> length (s[i := m]) = length s"
proof -
  define d1 where "d1 = convert_specializations dumps d"
  have wt1: "well_typed d1" unfolding d1_def using wt by (rule well_typed_convert)
  then have dist1: "distinct (map fst d1)" by (simp add: well_typed_def)
  have st1: "storable d1" unfolding d1_def using st by (rule storable_convert)
  have found: "find_existing s d = Some i"
    using email name noemail byname by (simp add: find_existing_def)
  obtain m where m: "merge_items (s ! i) d1 = Inr m"
    using merge_items_succeeds [OF wt1 rt] by blast
  have "(''email'', PStr e) \<in> set d1"
    using email by (simp add: d1_def get_convert get_mem)
  from merge_items_key [OF dist1 m this]
  have me: "m ''email'' = PStr e'"
    using stored by (simp add: merged_value_def score_columns_def)
  have nc: "\<not> (m ''email'' \<noteq> (s ! i) ''email'' \<and> email_taken s i (m ''email''))"
    using me stored by simp
  have ov: "\<not> list_ex (\<lambda>k. m k \<noteq> (s ! i) k \<and> \<not> fits_integer (m k)) columns"
    using dist1 st1 m by (rule no_overflow)
  obtain m' where res: "add_journalist dumps attrs now s d = (s[i := m'], d1, Inr (Some m'))"
    and m': "m' = m \<or> m' = m(''last_updated'' := PDateTime now)"
    using add_journalist_merge [OF found m [unfolded d1_def] ov nc, of attrs now]
    by (auto simp: d1_def)
  have "m' ''email'' = PStr e'" using m' me by auto
  then show ?thesis using res by (auto simp: d1_def)
qed

theorem merge_name_fallthrough_witness:
  "well_typed other_email \<and>
   storable other_email \<and>
   row_typed ([stored_smith] ! 0) \<and>
   get other_email ''email'' PNone = PStr ''smith@example.org'' \<and>
   find_first (\<lambda>r. r ''email'' = PStr ''smith@example.org'') [stored_smith] = None \<and>
   get other_email ''name'' PNone = PStr ''A. Smith'' \<and>
   find_first (\<lambda>r. r ''name'' = PStr ''A. Smith'') [stored_smith] = Some 0 \<and>
   ([stored_smith] ! 0) ''email'' = PStr ''a.smith@techcrunch.com'' \<and>
   strip ''a.smith@techcrunch.com'' \<noteq> [] \<and>
   (\<exists>m. add_journalist (\<lambda>l. ''[]'') [] 60 [stored_smith] other_email =
          ([stored_smith][0 := m], convert_specializations (\<lambda>l. ''[]'') other_email, Inr (Some m)) \<and>
        m ''email'' = PStr ''a.smith@techcrunch.com'' \<and>
        length ([stored_smith][0 := m]) = length [stored_smith])"
proof -
  have h1: "well_typed other_email" by (simp add: other_email_def db_eval)
  have h1': "storable other_email" by (simp add: other_email_def db_eval)
  have h2: "row_typed ([stored_smith] ! 0)" by (simp add: stored_smith_typed)
  have h3: "get other_email ''email'' PNone = PStr ''smith@example.org''"
    by (simp add: other_email_def db_eval)
  have h3': "''smith@example.org'' \<noteq> []" by simp
  have h4: "find_first (\<lambda>r. r ''email'' = PStr ''smith@example.org'') [stored_smith] = None"
    by (simp add: stored_smith_def db_eval)
  have h5: "get other_email ''name'' PNone = PStr ''A. Smith''"
    by (simp add: other_email_def db_eval)
  have h5': "''A. Smith'' \<noteq> []" by simp
  have h6: "find_first (\<lambda>r. r ''name'' = PStr ''A. Smith'') [stored_smith] = Some 0"
    by (simp add: stored_smith_def db_eval)
  have h7: "([stored_smith] ! 0) ''email'' = PStr ''a.smith@techcrunch.com''"
    by (simp add: stored_smith_def db_eval)
  have h8: "strip ''a.smith@techcrunch.com'' \<noteq> []"
    by (simp add: strip_def is_space_def)
  show ?thesis
    using h1 h1' h2 h3 h4 h5 h6 h7 h8
      merge_name_fallthrough [OF h1 h1' h2 h3 h3' h4 h5 h5' h6 h7 h8, of "\<lambda>l. ''[]''" "[]" 60]
    by simp
qed



end
